theory Spec2Isabelle
  imports Main "HOL-Library.Word" "HOL-Library.AList"
begin

section \<open>The tattoo generation endpoint of \<^verbatim>\<open>project/main.py\<close>\<close>

text \<open>
  The handler \<^verbatim>\<open>generate_tattoo\<close> builds a prompt from the form fields, calls an image
  model, walks over the parts of the answer, stores every generated image under a new file
  name and renders a page or a JSON body. The embedding below follows the handler from top
  to bottom. The collaborators that are not part of the repository (the image library, the
  model client) are parameters of the model; exceptions are values.
\<close>

subsection \<open>Strings of the prompt\<close>

text \<open>The literals of lines 66 to 96 of the handler, in the order of their appearance.\<close>

definition preamble :: "string list" where
  "preamble =
    [''You generate images of tattoos overlayed on skin of submitted images.'',
     ''Based on the provided input data, create a tattoo design that fits naturally on the body part shown.'',
     ''Input data:'',
     ''- Photo: An attached image of a body part (can be a hand, arm, leg, face, etc.)'']"

definition reference_line :: string where
  "reference_line = ''- Reference Image: An attached image that serves as the inspiration for the tattoo design. Use it as the primary reference for style/subject where appropriate.''"

definition theme_general :: string where
  "theme_general = ''- Theme (general description of tattoo): ''"

definition theme_supplementary :: string where
  "theme_supplementary = ''- Theme (supplementary details for the tattoo based off the chosen reference image): ''"

definition style_label :: string where
  "style_label = ''- Style (artistic style of tattoo): ''"

definition color_mode_label :: string where
  "color_mode_label = ''- Color Mode (examples: black and white, rainbow color, monochrome, etc.): ''"

definition physical_attributes_label :: string where
  "physical_attributes_label = ''- Physical Attributes (size/placement): ''"

definition no_text_instruction :: string where
  "no_text_instruction = ''Do not generate any text in your response. Your response should only consist of a generated image.''"

definition no_modify_instruction :: string where
  "no_modify_instruction = ''Do not modify the original image except to add the tattoo design.''"

subsection \<open>The prompt builder (lines 65 to 98)\<close>

text \<open>
  \<^verbatim>\<open>lines\<close> is a Python list that grows by \<^verbatim>\<open>append\<close>; every \<^verbatim>\<open>let\<close> below is one
  statement of the source. A Python string is true when it is not empty. The first argument
  is the test \<^verbatim>\<open>reference is not None\<close>.
\<close>

definition prompt_lines :: "bool \<Rightarrow> string \<Rightarrow> string \<Rightarrow> string \<Rightarrow> string \<Rightarrow> string list" where
  "prompt_lines has_reference theme style color_mode physical_attributes =
    (let lines = preamble;
         lines = (if has_reference then lines @ [reference_line] else lines);
         lines = (if theme \<noteq> []
                  then (if \<not> has_reference
                        then lines @ [theme_general @ theme]
                        else lines @ [theme_supplementary @ theme])
                  else lines);
         lines = (if style \<noteq> [] then lines @ [style_label @ style] else lines);
         lines = (if color_mode \<noteq> [] then lines @ [color_mode_label @ color_mode] else lines);
         lines = (if physical_attributes \<noteq> []
                  then lines @ [physical_attributes_label @ physical_attributes]
                  else lines);
         lines = lines @ [''''];
         lines = lines @ [no_text_instruction];
         lines = lines @ [no_modify_instruction]
     in lines)"

text \<open>Python's \<^verbatim>\<open>sep.join(xs)\<close>.\<close>

fun join :: "string \<Rightarrow> string list \<Rightarrow> string" where
  "join sep [] = []"
| "join sep [x] = x"
| "join sep (x # y # ys) = x @ sep @ join sep (y # ys)"

definition newline :: string where
  "newline = [CHR 0x0A]"

definition build_prompt :: "bool \<Rightarrow> string \<Rightarrow> string \<Rightarrow> string \<Rightarrow> string \<Rightarrow> string" where
  "build_prompt has_reference theme style color_mode physical_attributes =
     join newline (prompt_lines has_reference theme style color_mode physical_attributes)"

text \<open>
  The prompt as section 4.1 of the specification words it: a fixed preamble, then one line
  for the reference image and one for each field that is not empty, then the pair of
  closing instructions.
\<close>

definition optional_line :: "bool \<Rightarrow> string \<Rightarrow> string list" where
  "optional_line present line = (if present then [line] else [])"

definition theme_line :: "bool \<Rightarrow> string \<Rightarrow> string" where
  "theme_line has_reference theme =
     (if has_reference then theme_supplementary @ theme else theme_general @ theme)"

definition field_lines :: "bool \<Rightarrow> string \<Rightarrow> string \<Rightarrow> string \<Rightarrow> string \<Rightarrow> string list" where
  "field_lines has_reference theme style color_mode physical_attributes =
     optional_line has_reference reference_line
     @ optional_line (theme \<noteq> []) (theme_line has_reference theme)
     @ optional_line (style \<noteq> []) (style_label @ style)
     @ optional_line (color_mode \<noteq> []) (color_mode_label @ color_mode)
     @ optional_line (physical_attributes \<noteq> []) (physical_attributes_label @ physical_attributes)"

definition trailing_instruction_pair :: "string list" where
  "trailing_instruction_pair = [no_text_instruction, no_modify_instruction]"

definition specified_lines :: "bool \<Rightarrow> string \<Rightarrow> string \<Rightarrow> string \<Rightarrow> string \<Rightarrow> string list" where
  "specified_lines has_reference theme style color_mode physical_attributes =
     preamble
     @ field_lines has_reference theme style color_mode physical_attributes
     @ trailing_instruction_pair"

subsection \<open>Values of the handler\<close>

type_synonym bytes = "8 word list"

text \<open>
  An exception is a value of class \<^verbatim>\<open>Exception\<close>, which every \<^verbatim>\<open>except\<close> clause of the
  handler catches; it carries the text that \<^verbatim>\<open>str(e)\<close> returns.
\<close>

datatype py_exception = PyException string

fun str :: "py_exception \<Rightarrow> string" where
  "str (PyException msg) = msg"

text \<open>
  The items of the list \<^verbatim>\<open>contents\<close> handed to the model: the prompt and the opened images.
\<close>

datatype 'img content = Prompt string | Picture 'img

text \<open>
  A part of the model's answer has an optional text and an optional blob \<^verbatim>\<open>inline_data\<close>
  whose field \<^verbatim>\<open>data\<close> holds bytes or \<^verbatim>\<open>None\<close>.
\<close>

record blob =
  data :: "bytes option"

record part =
  part_text :: "string option"
  inline_data :: "blob option"

record response =
  parts :: "part list option"

text \<open>
  What the repository does not contain: \<^verbatim>\<open>Image.open(BytesIO(b))\<close>, the PNG encoder behind
  \<^verbatim>\<open>img.save(..., "PNG")\<close> and \<^verbatim>\<open>client.models.generate_content\<close>. Each may raise.
\<close>

record 'img env =
  image_open :: "bytes \<Rightarrow> py_exception + 'img"
  save_png :: "'img \<Rightarrow> py_exception + bytes"
  generate_content :: "'img content list \<Rightarrow> py_exception + response"

text \<open>
  The request: the value of the \<^verbatim>\<open>Accept\<close> header when there is one, the outcome of
  \<^verbatim>\<open>await photo.read()\<close>, the outcome of \<^verbatim>\<open>await reference.read()\<close> when a reference was
  uploaded, and the four form fields.
\<close>

record request =
  accept :: "string option"
  photo :: "py_exception + bytes"
  reference :: "(py_exception + bytes) option"
  style :: string
  theme :: string
  color_mode :: string
  physical_attributes :: string

text \<open>The dictionary \<^verbatim>\<open>result\<close> of the rendered page and the two kinds of answer.\<close>

record result =
  result_uploaded_image_base64 :: string
  result_generated_image_base64 :: "string option"
  result_style :: string
  result_theme :: string
  result_color_mode :: string
  result_size :: string

datatype http_response =
    JSONResponse string "string option"
  | TemplateResponse "result option" "string option"

text \<open>
  The directory \<^verbatim>\<open>generated images\<close>: file names with their contents. \<^verbatim>\<open>os.listdir\<close>
  returns the names; writing to a path replaces the file of that name or adds a new one.
\<close>

type_synonym directory = "(string \<times> bytes) list"

definition listdir :: "directory \<Rightarrow> string list" where
  "listdir dir = map fst dir"

definition write_file :: "directory \<Rightarrow> string \<Rightarrow> bytes \<Rightarrow> directory" where
  "write_file dir path content = AList.update path content dir"

subsection \<open>Library functions on strings and bytes\<close>

text \<open>
  File names are Python strings; a character is modelled by a code point below 256, on
  which \<^verbatim>\<open>str.lower\<close>, \<^verbatim>\<open>str.isdigit\<close> and \<^verbatim>\<open>int\<close> behave as follows. The capital letters are
  A to Z and U+00C0 to U+00DE without the multiplication sign. \<^verbatim>\<open>isdigit\<close> accepts the
  ten decimal digits and the superscripts U+00B2, U+00B3, U+00B9; \<^verbatim>\<open>int\<close> accepts the
  decimal digits only and raises \<^verbatim>\<open>ValueError\<close> on a superscript.
\<close>

definition startswith :: "string \<Rightarrow> string \<Rightarrow> bool" where
  "startswith s p = (take (length p) s = p)"

definition endswith :: "string \<Rightarrow> string \<Rightarrow> bool" where
  "endswith s p = (length p \<le> length s \<and> drop (length s - length p) s = p)"

definition lower_char :: "char \<Rightarrow> char" where
  "lower_char c =
     (let n = of_char c :: nat in
      if (65 \<le> n \<and> n \<le> 90) \<or> (192 \<le> n \<and> n \<le> 222 \<and> n \<noteq> 215)
      then char_of (n + 32) else c)"

definition lower :: "string \<Rightarrow> string" where
  "lower s = map lower_char s"

definition is_decimal_char :: "char \<Rightarrow> bool" where
  "is_decimal_char c = (let n = of_char c :: nat in 48 \<le> n \<and> n \<le> 57)"

definition is_digit_char :: "char \<Rightarrow> bool" where
  "is_digit_char c = (let n = of_char c :: nat in (48 \<le> n \<and> n \<le> 57) \<or> n = 178 \<or> n = 179 \<or> n = 185)"

definition isdigit :: "string \<Rightarrow> bool" where
  "isdigit s = (s \<noteq> [] \<and> list_all is_digit_char s)"

definition decimal_value :: "string \<Rightarrow> int" where
  "decimal_value s = foldl (\<lambda>acc c. 10 * acc + (int (of_char c) - 48)) 0 s"

text \<open>
  \<^verbatim>\<open>int(s)\<close> on the strings the handler passes to it, which have passed \<^verbatim>\<open>isdigit\<close> and
  so hold neither sign, blank nor underscore.
\<close>

definition py_int :: "string \<Rightarrow> py_exception + int" where
  "py_int s =
     (if s \<noteq> [] \<and> list_all is_decimal_char s then Inr (decimal_value s)
      else Inl (PyException ''invalid literal for int() with base 10''))"

text \<open>The decimal numeral that an f-string prints for an integer.\<close>

fun str_nat :: "nat \<Rightarrow> string" where
  "str_nat n =
     (if n < 10 then [''0123456789'' ! n]
      else str_nat (n div 10) @ [''0123456789'' ! (n mod 10)])"

declare str_nat.simps [simp del]

definition str_int :: "int \<Rightarrow> string" where
  "str_int i = (if i < 0 then CHR ''-'' # str_nat (nat (- i)) else str_nat (nat i))"

text \<open>\<^verbatim>\<open>needle in haystack\<close> on strings.\<close>

fun contains :: "string \<Rightarrow> string \<Rightarrow> bool" where
  "contains needle [] = (needle = [])"
| "contains needle (c # cs) = (startswith (c # cs) needle \<or> contains needle cs)"

text \<open>\<^verbatim>\<open>base64.b64encode(b).decode()\<close>: three bytes give four characters, with padding.\<close>

definition b64_char :: "nat \<Rightarrow> char" where
  "b64_char n = ''ABCDEFGHIJKLMNOPQRSTUVWXYZabcdefghijklmnopqrstuvwxyz0123456789+/'' ! n"

fun b64encode :: "bytes \<Rightarrow> string" where
  "b64encode [] = []"
| "b64encode [a] =
     (let n = unat a * 65536
      in [b64_char (n div 262144), b64_char (n div 4096 mod 64), CHR ''='', CHR ''=''])"
| "b64encode [a, b] =
     (let n = unat a * 65536 + unat b * 256
      in [b64_char (n div 262144), b64_char (n div 4096 mod 64), b64_char (n div 64 mod 64),
          CHR ''=''])"
| "b64encode (a # b # c # rest) =
     (let n = unat a * 65536 + unat b * 256 + unat c
      in [b64_char (n div 262144), b64_char (n div 4096 mod 64), b64_char (n div 64 mod 64),
          b64_char (n mod 64)] @ b64encode rest)"

subsection \<open>The next free index (lines 139 to 150)\<close>

text \<open>
  The loop over \<^verbatim>\<open>existing\<close> with its running maximum. \<^verbatim>\<open>fn[len("generated_image"):-4]\<close>
  cuts the last four characters and then the first fifteen. \<^verbatim>\<open>int(name)\<close> is inside the
  \<^verbatim>\<open>try\<close> of line 132, so its exception ends the scan.
\<close>

fun max_index :: "string list \<Rightarrow> int \<Rightarrow> py_exception + int" where
  "max_index [] max_idx = Inr max_idx"
| "max_index (fn # existing) max_idx =
     (let name = drop (length ''generated_image'') (take (length fn - 4) fn) in
      if isdigit name
      then (case py_int name of
              Inl e \<Rightarrow> Inl e
            | Inr idx \<Rightarrow> max_index existing (if idx > max_idx then idx else max_idx))
      else max_index existing max_idx)"

definition next_index :: "string list \<Rightarrow> py_exception + int" where
  "next_index listing =
     (let existing = filter (\<lambda>f. startswith f ''generated_image'' \<and> endswith (lower f) ''.png'')
                       listing
      in case max_index existing 0 of
           Inl e \<Rightarrow> Inl e
         | Inr max_idx \<Rightarrow> Inr (max_idx + 1))"

definition output_name :: "int \<Rightarrow> string" where
  "output_name next_idx = ''generated_image'' @ str_int next_idx @ ''.png''"

subsection \<open>The parts of the answer (lines 118 to 158)\<close>

text \<open>
  The body of the \<^verbatim>\<open>try\<close> of lines 132 to 155: open the bytes, find the next index, write
  the file, encode the image for the page. It returns the new base64 string and the new
  directory, or the exception that the handler of line 156 catches. Both calls of
  \<^verbatim>\<open>gen_img.save\<close> write the PNG encoding of the same image; an encoder that raises leaves
  no file behind, and the file system is taken to accept every write.
\<close>

definition save_generated :: "'img env \<Rightarrow> directory \<Rightarrow> bytes \<Rightarrow> py_exception + (string \<times> directory)" where
  "save_generated env dir img_data =
     (case image_open env img_data of
        Inl e \<Rightarrow> Inl e
      | Inr gen_img \<Rightarrow>
          (case next_index (listdir dir) of
             Inl e \<Rightarrow> Inl e
           | Inr next_idx \<Rightarrow>
               (case save_png env gen_img of
                  Inl e \<Rightarrow> Inl e
                | Inr png \<Rightarrow> Inr (b64encode png, write_file dir (output_name next_idx) png))))"

text \<open>The three variables that the loop over the parts updates.\<close>

record loop_state =
  generated_text :: string
  generated_image_base64 :: "string option"
  generated_dir :: directory

text \<open>\<^verbatim>\<open>BytesIO(img_data)\<close> and \<^verbatim>\<open>img_data or b""\<close>: no bytes when the data is \<^verbatim>\<open>None\<close>.\<close>

definition bytes_or_empty :: "bytes option \<Rightarrow> bytes" where
  "bytes_or_empty img_data = (case img_data of None \<Rightarrow> [] | Some b \<Rightarrow> b)"

text \<open>
  One round of the loop. A part whose text is neither \<^verbatim>\<open>None\<close> nor empty is a text part;
  otherwise a part with \<^verbatim>\<open>inline_data\<close> is an image part; any other part is skipped.
\<close>

definition image_branch :: "'img env \<Rightarrow> loop_state \<Rightarrow> part \<Rightarrow> loop_state" where
  "image_branch env st p =
     (case inline_data p of
        None \<Rightarrow> st
      | Some b \<Rightarrow>
          (let img_data = data b in
           case save_generated env (generated_dir st) (bytes_or_empty img_data) of
             Inr (encoded, dir') \<Rightarrow>
               st\<lparr>generated_image_base64 := Some encoded, generated_dir := dir'\<rparr>
           | Inl e \<Rightarrow>
               st\<lparr>generated_image_base64 := Some (b64encode (bytes_or_empty img_data))\<rparr>))"

definition process_part :: "'img env \<Rightarrow> loop_state \<Rightarrow> part \<Rightarrow> loop_state" where
  "process_part env st p =
     (case part_text p of
        None \<Rightarrow> image_branch env st p
      | Some t \<Rightarrow>
          if t \<noteq> [] then st\<lparr>generated_text := generated_text st @ t\<rparr>
          else image_branch env st p)"

definition process_parts :: "'img env \<Rightarrow> part list \<Rightarrow> loop_state \<Rightarrow> loop_state" where
  "process_parts env ps st = foldl (process_part env) st ps"

subsection \<open>The handler (lines 45 to 192)\<close>

definition error_page :: "py_exception \<Rightarrow> http_response" where
  "error_page e = TemplateResponse None (Some (str e))"

text \<open>Lines 101 to 111: the reference image joins the contents only when it opens.\<close>

definition build_contents ::
  "'img env \<Rightarrow> string \<Rightarrow> 'img \<Rightarrow> (py_exception + bytes) option \<Rightarrow> 'img content list" where
  "build_contents env prompt user_image ref =
     (let contents = [Prompt prompt, Picture user_image] in
      case ref of
        None \<Rightarrow> contents
      | Some upload \<Rightarrow>
          (case upload of
             Inl e \<Rightarrow> contents
           | Inr ref_bytes \<Rightarrow>
               (case image_open env ref_bytes of
                  Inl e \<Rightarrow> contents
                | Inr ref_img \<Rightarrow> contents @ [Picture ref_img])))"

definition request_prompt :: "request \<Rightarrow> string" where
  "request_prompt req =
     build_prompt (reference req \<noteq> None) (theme req) (style req) (color_mode req)
       (physical_attributes req)"

text \<open>Lines 160 to 186: a JSON body for a client that accepts JSON, the page otherwise.\<close>

definition render :: "request \<Rightarrow> string \<Rightarrow> loop_state \<Rightarrow> http_response" where
  "render req uploaded_image_base64 st =
     (let accept_header = (case accept req of None \<Rightarrow> [] | Some a \<Rightarrow> a) in
      if contains ''application/json'' accept_header
      then JSONResponse (generated_text st) (generated_image_base64 st)
      else TemplateResponse
             (Some \<lparr>result_uploaded_image_base64 = uploaded_image_base64,
                    result_generated_image_base64 = generated_image_base64 st,
                    result_style = style req,
                    result_theme = theme req,
                    result_color_mode = color_mode req,
                    result_size = physical_attributes req\<rparr>)
             None)"

text \<open>The state in which the loop over the parts starts (lines 118 and 119).\<close>

definition initial_state :: "directory \<Rightarrow> loop_state" where
  "initial_state dir =
     \<lparr>generated_text = [], generated_image_base64 = None, generated_dir = dir\<rparr>"

text \<open>
  The body of the \<^verbatim>\<open>try\<close> of line 54, up to the response that line 164 or line 171 is
  about to construct. It takes the directory as it is before the request and returns the
  directory as it is afterwards, with \<^verbatim>\<open>Inr r\<close> for the response \<open>r\<close> to construct or
  \<^verbatim>\<open>Inl e\<close> for an exception that no inner handler has caught.
\<close>

definition try_block ::
  "'img env \<Rightarrow> directory \<Rightarrow> request \<Rightarrow> (py_exception + http_response) \<times> directory" where
  "try_block env dir req =
     (case photo req of
        Inl e \<Rightarrow> (Inl e, dir)
      | Inr image_bytes \<Rightarrow>
     (case image_open env image_bytes of
        Inl e \<Rightarrow> (Inl e, dir)
      | Inr user_image \<Rightarrow>
     (case save_png env user_image of
        Inl e \<Rightarrow> (Inl e, dir)
      | Inr upload_png \<Rightarrow>
     (let uploaded_image_base64 = b64encode upload_png;
          prompt = request_prompt req;
          contents = build_contents env prompt user_image (reference req)
      in case generate_content env contents of
           Inl e \<Rightarrow> (Inl e, dir)
         | Inr resp \<Rightarrow>
             (let ps = (case parts resp of None \<Rightarrow> [] | Some ps \<Rightarrow> ps);
                  st = process_parts env ps (initial_state dir)
              in (Inr (render req uploaded_image_base64 st), generated_dir st))))))"

text \<open>
  The answer of the handler and the directory after the request, when constructing the
  response objects does not raise: the \<^verbatim>\<open>except\<close> of line 188 turns an exception of the
  \<^verbatim>\<open>try\<close> into the error page.
\<close>

definition generate_tattoo :: "'img env \<Rightarrow> directory \<Rightarrow> request \<Rightarrow> http_response \<times> directory" where
  "generate_tattoo env dir req =
     (case try_block env dir req of
        (Inl e, dir') \<Rightarrow> (error_page e, dir')
      | (Inr r, dir') \<Rightarrow> (r, dir'))"

text \<open>
  Constructing a response renders it (the template, the JSON body) and may raise as well:
  \<open>raises r\<close> is the exception that the construction of \<open>r\<close> raises, if any. The result is
  constructed inside the \<^verbatim>\<open>try\<close> (lines 164 and 171), so that its exception reaches the
  \<^verbatim>\<open>except\<close> clause; the error page is constructed inside the \<^verbatim>\<open>except\<close> clause (line 189),
  where nothing catches, so that its exception leaves the handler.
\<close>

datatype outcome = Response http_response | Fault py_exception

definition except_clause :: "(http_response \<Rightarrow> py_exception option) \<Rightarrow> py_exception \<Rightarrow> outcome" where
  "except_clause raises e =
     (case raises (error_page e) of
        None \<Rightarrow> Response (error_page e)
      | Some e' \<Rightarrow> Fault e')"

definition generate_tattoo_outcome ::
  "(http_response \<Rightarrow> py_exception option) \<Rightarrow> 'img env \<Rightarrow> directory \<Rightarrow> request
     \<Rightarrow> outcome \<times> directory" where
  "generate_tattoo_outcome raises env dir req =
     (case try_block env dir req of
        (Inl e, dir') \<Rightarrow> (except_clause raises e, dir')
      | (Inr r, dir') \<Rightarrow>
          (case raises r of
             None \<Rightarrow> (Response r, dir')
           | Some e \<Rightarrow> (except_clause raises e, dir')))"

subsection \<open>Notions used in the statements\<close>

text \<open>
  A file name matches the pattern of the scan when it passes the filter of line 140 and
  the test of line 145; its index is the number that line 146 reads from it.
\<close>

definition matches_pattern :: "string \<Rightarrow> bool" where
  "matches_pattern f =
     (startswith f ''generated_image'' \<and> endswith (lower f) ''.png''
      \<and> isdigit (drop 15 (take (length f - 4) f)))"

definition file_index :: "string \<Rightarrow> int option" where
  "file_index f =
     (if matches_pattern f
      then (case py_int (drop 15 (take (length f - 4) f)) of
              Inr i \<Rightarrow> Some i
            | Inl e \<Rightarrow> None)
      else None)"

definition found_indices :: "string list \<Rightarrow> int list" where
  "found_indices listing = List.map_filter file_index listing"

text \<open>
  The parts that reach the image branch of the loop, the bytes they carry, the PNG file
  that such a part yields when its bytes open and encode, and the base64 string that the
  loop then stores for it.
\<close>

definition is_image_part :: "part \<Rightarrow> bool" where
  "is_image_part p =
     ((part_text p = None \<or> part_text p = Some []) \<and> inline_data p \<noteq> None)"

definition raw_bytes :: "part \<Rightarrow> bytes" where
  "raw_bytes p = (case inline_data p of None \<Rightarrow> [] | Some b \<Rightarrow> bytes_or_empty (data b))"





text \<open>The image that an answer of the handler carries, in either of its two forms.\<close>

fun returned_image_base64 :: "http_response \<Rightarrow> string option" where
  "returned_image_base64 (JSONResponse t b) = b"
| "returned_image_base64 (TemplateResponse None e) = None"
| "returned_image_base64 (TemplateResponse (Some r) e) = result_generated_image_base64 r"

subsection \<open>Concrete collaborators for the examples\<close>

text \<open>
  An image library that opens exactly the byte strings starting with the PNG signature
  byte and encodes an image as its bytes, and a model that gives a fixed answer.
\<close>

definition example_open :: "bytes \<Rightarrow> py_exception + bytes" where
  "example_open b =
     (case b of
        [] \<Rightarrow> Inl (PyException ''cannot identify image file'')
      | x # xs \<Rightarrow> if x = 137 then Inr b else Inl (PyException ''cannot identify image file''))"

definition example_env :: "(py_exception + response) \<Rightarrow> bytes env" where
  "example_env answer =
     \<lparr>image_open = example_open, save_png = (\<lambda>img. Inr img),
      generate_content = (\<lambda>contents. answer)\<rparr>"

definition image_part :: "bytes \<Rightarrow> part" where
  "image_part b = \<lparr>part_text = None, inline_data = Some \<lparr>data = Some b\<rparr>\<rparr>"

definition example_request :: "string option \<Rightarrow> (py_exception + bytes) option \<Rightarrow> request" where
  "example_request acc ref =
     \<lparr>accept = acc, photo = Inr [137, 80], reference = ref, style = ''fine line'',
      theme = ''koi'', color_mode = [], physical_attributes = ''forearm''\<rparr>"


definition json_raises :: "http_response \<Rightarrow> py_exception option" where
  "json_raises r =
     (case r of
        JSONResponse t b \<Rightarrow> Some (PyException ''not JSON serializable'')
      | TemplateResponse res err \<Rightarrow> None)"

section \<open>Properties\<close>

subsection \<open>The prompt\<close>

lemma prompt_lines_eq:
  "prompt_lines r th sty cm pa
     = preamble @ field_lines r th sty cm pa @ [[]] @ trailing_instruction_pair"
  by (simp add: prompt_lines_def field_lines_def optional_line_def theme_line_def
      trailing_instruction_pair_def Let_def)

lemma join_Cons: "ys \<noteq> [] \<Longrightarrow> join sep (x # ys) = x @ sep @ join sep ys"
  by (cases ys) simp_all

lemma join_snoc: "join sep (xs @ [y]) = concat (map (\<lambda>l. l @ sep) xs) @ y"
  by (induction xs) (simp_all add: join_Cons)

text \<open>
  C1, as amended: for every choice of empty and non-empty theme, style, color mode and
  physical attributes, with and without a reference image, the builder produces exactly
  these lines in this order: the preamble, the reference line iff a reference is present,
  the theme, style, color-mode and size/placement lines iff their field is not empty, one
  empty line, and the pair of closing instructions. The prompt is these lines with one
  newline between neighbours: every line before the empty one is followed by a newline,
  the empty line contributes the next newline, and one newline stands between the two
  instructions. The builder is a total function: it has no error case.
\<close>

theorem prompt_lines_in_order:
  "prompt_lines r th sty cm pa
     = preamble @ field_lines r th sty cm pa @ [[]] @ trailing_instruction_pair
   \<and> build_prompt r th sty cm pa
     = concat (map (\<lambda>l. l @ newline) (preamble @ field_lines r th sty cm pa))
       @ newline @ no_text_instruction @ newline @ no_modify_instruction"
proof
  show "prompt_lines r th sty cm pa
          = preamble @ field_lines r th sty cm pa @ [[]] @ trailing_instruction_pair"
    by (rule prompt_lines_eq)
  have "prompt_lines r th sty cm pa
          = ((preamble @ field_lines r th sty cm pa) @ [[], no_text_instruction])
            @ [no_modify_instruction]"
    by (simp add: prompt_lines_eq trailing_instruction_pair_def)
  then show "build_prompt r th sty cm pa
     = concat (map (\<lambda>l. l @ newline) (preamble @ field_lines r th sty cm pa))
       @ newline @ no_text_instruction @ newline @ no_modify_instruction"
    by (simp only: build_prompt_def join_snoc) simp
qed

theorem prompt_lines_in_order_witness:
  "build_prompt False ''koi'' [] ''black and white'' [] =
     ''You generate images of tattoos overlayed on skin of submitted images.\<newline>Based on the provided input data, create a tattoo design that fits naturally on the body part shown.\<newline>Input data:\<newline>- Photo: An attached image of a body part (can be a hand, arm, leg, face, etc.)\<newline>- Theme (general description of tattoo): koi\<newline>- Color Mode (examples: black and white, rainbow color, monochrome, etc.): black and white\<newline>\<newline>Do not generate any text in your response. Your response should only consist of a generated image.\<newline>Do not modify the original image except to add the tattoo design.''"
  using prompt_lines_in_order [of False "''koi''" "[]" "''black and white''" "[]"]
  by (simp add: field_lines_def optional_line_def theme_line_def preamble_def newline_def
      theme_general_def color_mode_label_def no_text_instruction_def no_modify_instruction_def)

text \<open>
  C1 as stated fails: the list that the claim gives (preamble, the lines of the fields,
  the pair of closing instructions) is one line shorter than the list that the builder
  produces, for a request with all fields empty as for every other one, and the prompt is
  not its join.
\<close>

theorem prompt_has_empty_line_counterexample:
  "length (prompt_lines False [] [] [] []) = 7
   \<and> length (specified_lines False [] [] [] []) = 6
   \<and> prompt_lines False [] [] [] [] \<noteq> specified_lines False [] [] [] []
   \<and> build_prompt False [] [] [] [] \<noteq> join newline (specified_lines False [] [] [] [])"
  by (simp add: build_prompt_def prompt_lines_eq specified_lines_def field_lines_def
      optional_line_def trailing_instruction_pair_def preamble_def newline_def
      no_text_instruction_def no_modify_instruction_def)

lemma theme_general_not_fixed:
  "theme_general @ th \<notin> set preamble" "theme_general @ th \<noteq> reference_line"
  "theme_general @ th \<noteq> theme_supplementary @ th'"
  "theme_general @ th \<noteq> style_label @ s" "theme_general @ th \<noteq> color_mode_label @ c"
  "theme_general @ th \<noteq> physical_attributes_label @ p"
  "theme_general @ th \<notin> set trailing_instruction_pair"
  by (simp_all add: theme_general_def preamble_def reference_line_def theme_supplementary_def
      style_label_def color_mode_label_def physical_attributes_label_def
      trailing_instruction_pair_def no_text_instruction_def no_modify_instruction_def)

lemma theme_supplementary_not_fixed:
  "theme_supplementary @ th \<notin> set preamble" "theme_supplementary @ th \<noteq> reference_line"
  "theme_supplementary @ th \<noteq> theme_general @ th'"
  "theme_supplementary @ th \<noteq> style_label @ s"
  "theme_supplementary @ th \<noteq> color_mode_label @ c"
  "theme_supplementary @ th \<noteq> physical_attributes_label @ p"
  "theme_supplementary @ th \<notin> set trailing_instruction_pair"
  by (simp_all add: theme_general_def preamble_def reference_line_def theme_supplementary_def
      style_label_def color_mode_label_def physical_attributes_label_def
      trailing_instruction_pair_def no_text_instruction_def no_modify_instruction_def)

lemma theme_phrasings_differ:
  "theme_general \<noteq> theme_supplementary" "theme_supplementary \<noteq> theme_general"
  by (simp_all add: theme_general_def theme_supplementary_def)

lemma length_preamble: "length preamble = 4"
  by (simp add: preamble_def)

text \<open>
  C4: for a theme that is not empty, the theme line of a request with a reference image is
  the "supplementary details" phrasing followed by the theme (it is the line after the
  reference line, and the "general description" phrasing is no line of the prompt), and
  the theme line of a request without a reference image is the "general description"
  phrasing followed by the theme (the line after the preamble; the "supplementary"
  phrasing is no line of the prompt).
\<close>

theorem theme_line_phrasing:
  assumes "th \<noteq> []"
  shows "prompt_lines True th sty cm pa ! 5 = theme_supplementary @ th
       \<and> theme_general @ th \<notin> set (prompt_lines True th sty cm pa)
       \<and> prompt_lines False th sty cm pa ! 4 = theme_general @ th
       \<and> theme_supplementary @ th \<notin> set (prompt_lines False th sty cm pa)"
  using assms
  by (simp add: prompt_lines_eq field_lines_def optional_line_def theme_line_def
      theme_general_not_fixed theme_supplementary_not_fixed nth_append length_preamble
      theme_phrasings_differ)

theorem theme_line_phrasing_witness:
  "prompt_lines True ''koi'' ''fine line'' [] [] ! 5 = theme_supplementary @ ''koi''
   \<and> prompt_lines False ''koi'' ''fine line'' [] [] ! 4 = theme_general @ ''koi''"
proof -
  have ne: "''koi'' \<noteq> []" by simp
  show ?thesis
    using theme_line_phrasing [OF ne, of "''fine line''" "[]" "[]"] by simp
qed

lemma reference_line_in_prompt: "reference_line \<in> set (prompt_lines True th sty cm pa)"
  by (simp add: prompt_lines_eq field_lines_def optional_line_def)

lemma build_contents_starts:
  "\<exists>rest. build_contents env prompt img ref = Prompt prompt # Picture img # rest"
  by (simp add: build_contents_def Let_def split: option.splits sum.splits)

text \<open>
  C10: for a request with a reference upload, the prompt is the one built for a present
  reference whatever the upload holds and whatever the image library makes of it: it is
  the same for any other upload in its place, it is the first item handed to the model
  under every environment, it contains the reference line, and a theme that is not empty
  appears in the supplementary phrasing and not in the general one.
\<close>

theorem prompt_depends_on_presence_only:
  assumes "reference req = Some upload"
  shows "request_prompt req
           = build_prompt True (theme req) (style req) (color_mode req) (physical_attributes req)
       \<and> request_prompt (req\<lparr>reference := Some upload'\<rparr>) = request_prompt req
       \<and> (\<exists>rest. build_contents env (request_prompt req) img (reference req)
                    = Prompt (request_prompt req) # Picture img # rest)
       \<and> reference_line
            \<in> set (prompt_lines True (theme req) (style req) (color_mode req) (physical_attributes req))
       \<and> (theme req \<noteq> [] \<longrightarrow>
            theme_supplementary @ theme req
              \<in> set (prompt_lines True (theme req) (style req) (color_mode req) (physical_attributes req))
            \<and> theme_general @ theme req
              \<notin> set (prompt_lines True (theme req) (style req) (color_mode req) (physical_attributes req)))"
proof -
  have p: "request_prompt req
             = build_prompt True (theme req) (style req) (color_mode req) (physical_attributes req)"
    using assms by (simp add: request_prompt_def)
  have q: "request_prompt (req\<lparr>reference := Some upload'\<rparr>) = request_prompt req"
    using assms by (simp add: request_prompt_def)
  have t: "theme req \<noteq> [] \<longrightarrow>
            theme_supplementary @ theme req
              \<in> set (prompt_lines True (theme req) (style req) (color_mode req) (physical_attributes req))
            \<and> theme_general @ theme req
              \<notin> set (prompt_lines True (theme req) (style req) (color_mode req) (physical_attributes req))"
    by (simp add: prompt_lines_eq field_lines_def optional_line_def theme_line_def
        theme_general_not_fixed theme_phrasings_differ)
  show ?thesis
    by (intro conjI p q t build_contents_starts reference_line_in_prompt)
qed

theorem prompt_depends_on_presence_only_witness:
  "request_prompt (example_request None (Some (Inl (PyException ''closed file''))))
     = request_prompt (example_request None (Some (Inr [137, 1])))
   \<and> theme_supplementary @ ''koi''
       \<in> set (prompt_lines True ''koi'' ''fine line'' [] ''forearm'')"
proof -
  let ?req = "example_request None (Some (Inr [137, 1]))"
  have r: "reference ?req = Some (Inr [137, 1])" by (simp add: example_request_def)
  have u: "?req\<lparr>reference := Some (Inl (PyException ''closed file''))\<rparr>
             = example_request None (Some (Inl (PyException ''closed file'')))"
    by (simp add: example_request_def)
  show ?thesis
    using prompt_depends_on_presence_only
            [OF r, of "Inl (PyException ''closed file'')" "example_env (Inl (PyException []))" "[]"]
    by (simp add: u) (simp add: example_request_def)
qed

subsection \<open>Decimal numerals\<close>

lemma length_prefix: "length ''generated_image'' = 15"
  by simp

lemma digit_char_code: "d < 10 \<Longrightarrow> (of_char (''0123456789'' ! d) :: nat) = 48 + d"
proof -
  assume "d < 10"
  then have "d \<in> {0, 1, 2, 3, 4, 5, 6, 7, 8, 9}" by auto
  then show ?thesis by auto
qed

lemma str_nat_nonempty: "str_nat n \<noteq> []"
  by (subst str_nat.simps) simp

lemma str_nat_decimal: "list_all is_decimal_char (str_nat n)"
proof (induction n rule: str_nat.induct)
  case (1 n)
  show ?case
  proof (cases "n < 10")
    case True
    then show ?thesis
      by (subst str_nat.simps) (simp add: is_decimal_char_def digit_char_code)
  next
    case False
    have "n mod 10 < 10" by simp
    then have "is_decimal_char (''0123456789'' ! (n mod 10))"
      by (simp only: is_decimal_char_def digit_char_code Let_def) simp
    with False 1 show ?thesis
      by (subst str_nat.simps) simp
  qed
qed


lemma decimal_value_snoc:
  "decimal_value (s @ [c]) = 10 * decimal_value s + (int (of_char c) - 48)"
  by (simp add: decimal_value_def)

lemma decimal_value_str_nat: "decimal_value (str_nat n) = int n"
proof (induction n rule: str_nat.induct)
  case (1 n)
  show ?case
  proof (cases "n < 10")
    case True
    then have "str_nat n = [''0123456789'' ! n]"
      by (subst str_nat.simps) simp
    then show ?thesis
      using True by (simp add: decimal_value_def digit_char_code)
  next
    case False
    have m: "n mod 10 < 10" by simp
    have s: "str_nat n = str_nat (n div 10) @ [''0123456789'' ! (n mod 10)]"
      using False by (subst str_nat.simps) simp
    have "decimal_value (str_nat n)
            = 10 * decimal_value (str_nat (n div 10))
              + (int (of_char (''0123456789'' ! (n mod 10))) - 48)"
      by (simp only: s decimal_value_snoc)
    also have "\<dots> = 10 * int (n div 10) + (int (48 + n mod 10) - 48)"
      by (simp only: digit_char_code [OF m] 1 [OF False])
    also have "\<dots> = int n" by presburger
    finally show ?thesis .
  qed
qed

lemma decimal_value_nonneg: "list_all is_decimal_char s \<Longrightarrow> 0 \<le> decimal_value s"
proof (induction s rule: rev_induct)
  case Nil
  show ?case by (simp add: decimal_value_def)
next
  case (snoc c s)
  then show ?case
    by (simp add: decimal_value_snoc is_decimal_char_def Let_def)
qed

lemma decimal_is_digit: "is_decimal_char c \<Longrightarrow> is_digit_char c"
  by (simp add: is_decimal_char_def is_digit_char_def Let_def)

lemma py_int_str_int: "0 \<le> n \<Longrightarrow> py_int (str_int n) = Inr n"
  by (simp add: py_int_def str_int_def str_nat_nonempty str_nat_decimal decimal_value_str_nat)

lemma isdigit_str_int: "0 \<le> n \<Longrightarrow> isdigit (str_int n)"
  using str_nat_decimal [of "nat n"]
  by (simp add: isdigit_def str_int_def str_nat_nonempty list_all_iff decimal_is_digit)

lemma py_int_nonneg: "py_int s = Inr i \<Longrightarrow> 0 \<le> i"
  by (auto simp: py_int_def decimal_value_nonneg split: if_splits)


subsection \<open>The scan of the directory\<close>

lemma lower_png: "lower ''.png'' = ''.png''"
  by (simp add: lower_def lower_char_def)

lemma lower_append: "lower (a @ b) = lower a @ lower b"
  by (simp add: lower_def)

lemma length_lower: "length (lower s) = length s"
  by (simp add: lower_def)

lemma startswith_append: "startswith (p @ rest) p"
  by (simp add: startswith_def)

lemma endswith_append: "endswith (a @ p) p"
  by (simp add: endswith_def)

lemma passes_filter_output_name:
  "startswith (output_name n) ''generated_image'' \<and> endswith (lower (output_name n)) ''.png''"
proof
  show "startswith (output_name n) ''generated_image''"
    unfolding output_name_def by (rule startswith_append)
  have "lower (output_name n) = (lower ''generated_image'' @ lower (str_int n)) @ ''.png''"
    by (simp only: output_name_def lower_append lower_png append_assoc)
  then show "endswith (lower (output_name n)) ''.png''"
    by (simp only: endswith_append)
qed

lemma name_of_output_name:
  "drop 15 (take (length (output_name n) - 4) (output_name n)) = str_int n"
  by (simp add: output_name_def)

lemma file_index_output_name: "0 \<le> n \<Longrightarrow> file_index (output_name n) = Some n"
  by (simp add: file_index_def matches_pattern_def passes_filter_output_name
      name_of_output_name isdigit_str_int py_int_str_int)

lemma Max_running:
  "Max (set (m # i # xs)) = Max (set ((if i > m then i else m) # xs))" for m i :: int
  by (cases "xs = []") (auto simp: max_def)

lemma max_index_step:
  "max_index (fn # existing) max_idx =
     (if isdigit (drop 15 (take (length fn - 4) fn))
      then (case py_int (drop 15 (take (length fn - 4) fn)) of
              Inl e \<Rightarrow> Inl e
            | Inr idx \<Rightarrow> max_index existing (if idx > max_idx then idx else max_idx))
      else max_index existing max_idx)"
  by (simp only: max_index.simps length_prefix Let_def)

lemma max_index_found:
  "max_index (filter (\<lambda>f. startswith f ''generated_image'' \<and> endswith (lower f) ''.png'') listing) m
     = Inr r
   \<Longrightarrow> r = Max (set (m # found_indices listing))"
proof (induction listing arbitrary: m)
  case Nil
  then show ?case by (simp add: found_indices_def)
next
  case (Cons f fs)
  let ?P = "\<lambda>f. startswith f ''generated_image'' \<and> endswith (lower f) ''.png''"
  let ?name = "drop 15 (take (length f - 4) f)"
  show ?case
  proof (cases "?P f \<and> isdigit ?name")
    case False
    then have fi: "file_index f = None"
      by (auto simp: file_index_def matches_pattern_def)
    from False Cons.prems have "max_index (filter ?P fs) m = Inr r"
      by (auto simp: max_index_step simp del: max_index.simps split: if_splits)
    from Cons.IH [OF this] fi show ?thesis
      by (simp add: found_indices_def map_filter_simps)
  next
    case True
    with Cons.prems obtain idx where idx: "py_int ?name = Inr idx"
      and rest: "max_index (filter ?P fs) (if idx > m then idx else m) = Inr r"
      by (auto simp: max_index_step simp del: max_index.simps split: sum.splits)
    from True idx have fi: "file_index f = Some idx"
      by (simp add: file_index_def matches_pattern_def)
    have "r = Max (set ((if idx > m then idx else m) # found_indices fs))"
      by (rule Cons.IH [OF rest])
    also have "\<dots> = Max (set (m # idx # found_indices fs))"
      by (rule Max_running [symmetric])
    finally show ?thesis
      using fi by (simp add: found_indices_def map_filter_simps)
  qed
qed

lemma found_indices_iff:
  "i \<in> set (found_indices listing) \<longleftrightarrow> (\<exists>f \<in> set listing. file_index f = Some i)"
  unfolding found_indices_def
  by (induction listing) (auto split: option.splits)

lemma file_index_nonneg: "file_index f = Some i \<Longrightarrow> 0 \<le> i"
  by (auto simp: file_index_def py_int_nonneg split: if_splits sum.splits)

lemma found_indices_nonneg: "i \<in> set (found_indices listing) \<Longrightarrow> 0 \<le> i"
  by (auto simp: found_indices_iff file_index_nonneg)

lemma next_index_found:
  assumes "next_index listing = Inr n"
  shows "n = Max (set (0 # found_indices listing)) + 1"
proof -
  from assms obtain r where
    "max_index (filter (\<lambda>f. startswith f ''generated_image'' \<and> endswith (lower f) ''.png'') listing) 0
       = Inr r" and "n = r + 1"
    by (auto simp: next_index_def Let_def split: sum.splits)
  then show ?thesis
    using max_index_found by blast
qed

lemma next_index_above:
  assumes "next_index listing = Inr n" and "f \<in> set listing" and "file_index f = Some i"
  shows "i < n"
proof -
  have "i \<in> set (0 # found_indices listing)"
    using assms(2,3) by (auto simp: found_indices_iff)
  then have "i \<le> Max (set (0 # found_indices listing))"
    by (intro Max_ge) auto
  with next_index_found [OF assms(1)] show ?thesis by simp
qed

lemma next_index_positive: "next_index listing = Inr n \<Longrightarrow> 1 \<le> n"
proof -
  assume "next_index listing = Inr n"
  from next_index_found [OF this]
  have "n = Max (set (0 # found_indices listing)) + 1" .
  moreover have "0 \<le> Max (set (0 # found_indices listing))"
    by (intro Max_ge) auto
  ultimately show ?thesis by simp
qed

lemma output_name_fresh:
  assumes "next_index listing = Inr n"
  shows "output_name n \<notin> set listing"
proof
  assume "output_name n \<in> set listing"
  moreover have "file_index (output_name n) = Some n"
    using next_index_positive [OF assms] by (intro file_index_output_name) simp
  ultimately have "n < n"
    using next_index_above [OF assms] by blast
  then show False by simp
qed

lemma char_of_eval: "char_of (n::nat) = c \<longleftrightarrow> n mod 256 = of_char c"
  by (simp add: char_of_eq_iff take_bit_eq_mod)

lemmas scan_eval = char_of_eval next_index_def startswith_def endswith_def lower_def lower_char_def isdigit_def
      is_digit_char_def py_int_def is_decimal_char_def decimal_value_def output_name_def str_int_def
      str_nat.simps found_indices_def file_index_def matches_pattern_def

lemma update_fresh: "k \<notin> fst ` set al \<Longrightarrow> AList.update k v al = al @ [(k, v)]"
  by (induction al) auto

lemma save_generated_Inr:
  "save_generated env dir b = Inr (enc, dir') \<longleftrightarrow>
     (\<exists>img n png. image_open env b = Inr img \<and> next_index (listdir dir) = Inr n
        \<and> save_png env img = Inr png \<and> enc = b64encode png
        \<and> dir' = write_file dir (output_name n) png)"
  by (auto simp: save_generated_def split: sum.splits)

lemma write_file_fresh:
  "next_index (listdir dir) = Inr n \<Longrightarrow>
   write_file dir (output_name n) png = dir @ [(output_name n, png)]"
  using output_name_fresh [of "listdir dir" n]
  by (simp add: write_file_def listdir_def update_fresh)

lemma max_index_parses:
  "max_index (filter (\<lambda>f. startswith f ''generated_image'' \<and> endswith (lower f) ''.png'') listing) m
     = Inr r
   \<Longrightarrow> f \<in> set listing \<Longrightarrow> matches_pattern f \<Longrightarrow> \<exists>i. file_index f = Some i"
proof (induction listing arbitrary: m)
  case Nil
  then show ?case by simp
next
  case (Cons g gs)
  let ?P = "\<lambda>f. startswith f ''generated_image'' \<and> endswith (lower f) ''.png''"
  show ?case
  proof (cases "f = g")
    case True
    with Cons.prems show ?thesis
      by (auto simp: max_index_step file_index_def matches_pattern_def
          simp del: max_index.simps split: sum.splits)
  next
    case False
    with Cons.prems have mem: "f \<in> set gs" by simp
    from Cons.prems(1) obtain m' where "max_index (filter ?P gs) m' = Inr r"
      by (auto simp: max_index_step simp del: max_index.simps split: if_splits sum.splits)
    from Cons.IH [OF this mem Cons.prems(3)] show ?thesis .
  qed
qed

lemma next_index_parses:
  assumes "next_index listing = Inr n" and "f \<in> set listing" and "matches_pattern f"
  shows "\<exists>i. file_index f = Some i \<and> i < n"
proof -
  from assms(1) obtain r where
    "max_index (filter (\<lambda>f. startswith f ''generated_image'' \<and> endswith (lower f) ''.png'') listing) 0
       = Inr r"
    by (auto simp: next_index_def Let_def split: sum.splits)
  from max_index_parses [OF this assms(2,3)] obtain i where "file_index f = Some i" ..
  with next_index_above [OF assms(1,2)] show ?thesis by blast
qed

subsection \<open>The pattern of the file names, and when the scan succeeds\<close>

lemma max_index_total:
  assumes "\<forall>f \<in> set fs. isdigit (drop 15 (take (length f - 4) f))
             \<longrightarrow> list_all is_decimal_char (drop 15 (take (length f - 4) f))"
  shows "\<exists>r. max_index fs m = Inr r"
  using assms
proof (induction fs arbitrary: m)
  case Nil
  show ?case by simp
next
  case (Cons f fs)
  then have rest: "\<And>m'. \<exists>r. max_index fs m' = Inr r" by simp
  show ?case
  proof (cases "isdigit (drop 15 (take (length f - 4) f))")
    case False
    then show ?thesis using rest by (simp add: max_index_step del: max_index.simps)
  next
    case True
    with Cons.prems have "list_all is_decimal_char (drop 15 (take (length f - 4) f))" by simp
    moreover from True have "drop 15 (take (length f - 4) f) \<noteq> []" by (simp add: isdigit_def)
    ultimately have "py_int (drop 15 (take (length f - 4) f))
                       = Inr (decimal_value (drop 15 (take (length f - 4) f)))"
      by (simp add: py_int_def)
    then show ?thesis using True rest by (simp add: max_index_step del: max_index.simps)
  qed
qed

lemma next_index_total:
  assumes "\<forall>f \<in> set listing. matches_pattern f
             \<longrightarrow> list_all is_decimal_char (drop 15 (take (length f - 4) f))"
  shows "\<exists>n. next_index listing = Inr n"
proof -
  let ?P = "\<lambda>f. startswith f ''generated_image'' \<and> endswith (lower f) ''.png''"
  have "\<forall>f \<in> set (filter ?P listing). isdigit (drop 15 (take (length f - 4) f))
             \<longrightarrow> list_all is_decimal_char (drop 15 (take (length f - 4) f))"
    using assms by (auto simp: matches_pattern_def)
  from max_index_total [OF this, of 0] obtain r where "max_index (filter ?P listing) 0 = Inr r" ..
  then show ?thesis by (simp add: next_index_def)
qed

lemma ascii_digit_is_decimal:
  "is_digit_char c \<Longrightarrow> (of_char c :: nat) < 128 \<Longrightarrow> is_decimal_char c"
  by (auto simp: is_digit_char_def is_decimal_char_def Let_def)

lemma next_index_ascii:
  assumes "\<forall>f \<in> set listing. \<forall>c \<in> set f. (of_char c :: nat) < 128"
  shows "\<exists>n. next_index listing = Inr n"
proof (rule next_index_total, intro ballI impI)
  fix f
  assume f: "f \<in> set listing" and m: "matches_pattern f"
  let ?name = "drop 15 (take (length f - 4) f)"
  have sub: "set ?name \<subseteq> set f"
    by (meson set_drop_subset set_take_subset subset_trans)
  from m have "list_all is_digit_char ?name"
    by (simp add: matches_pattern_def isdigit_def)
  then show "list_all is_decimal_char ?name"
    using assms f sub by (auto simp: list_all_iff intro!: ascii_digit_is_decimal)
qed

lemma length_png: "length ''.png'' = 4"
  by simp

lemma startswith_prefix_iff: "startswith f ''generated_image'' \<longleftrightarrow> take 15 f = ''generated_image''"
  by (simp only: startswith_def length_prefix)

lemma endswith_png_iff:
  "endswith s ''.png'' \<longleftrightarrow> 4 \<le> length s \<and> drop (length s - 4) s = ''.png''"
  by (simp only: endswith_def length_png)

lemma middle_of_name:
  "length p = 15 \<Longrightarrow> length ext = 4 \<Longrightarrow>
   drop 15 (take (length (p @ ds @ ext) - 4) (p @ ds @ ext)) = ds"
  by simp

lemma matches_pattern_iff:
  "matches_pattern f \<longleftrightarrow>
     (\<exists>ds ext. f = ''generated_image'' @ ds @ ext \<and> isdigit ds \<and> length ext = 4
        \<and> lower ext = ''.png'')"
proof
  assume m: "matches_pattern f"
  let ?k = "length f - 4"
  let ?ds = "drop 15 (take ?k f)"
  let ?ext = "drop ?k f"
  from m have p: "take 15 f = ''generated_image''" and e: "4 \<le> length f"
    and l: "drop ?k (lower f) = ''.png''" and d: "isdigit ?ds"
    by (simp_all only: matches_pattern_def startswith_prefix_iff endswith_png_iff length_lower)
  from d have "?ds \<noteq> []" by (simp add: isdigit_def)
  then have k: "15 < ?k" by (cases "15 < ?k") simp_all
  have "f = take ?k f @ ?ext" by simp
  also have "take ?k f = take 15 (take ?k f) @ ?ds"
    by (rule append_take_drop_id [symmetric])
  also have "take 15 (take ?k f) = take 15 f" using k by (simp add: min_def)
  finally have "f = ''generated_image'' @ ?ds @ ?ext" by (simp add: p)
  moreover have "length ?ext = 4" using e by simp
  moreover have "lower ?ext = ''.png''" using l by (simp add: lower_def drop_map)
  ultimately show "\<exists>ds ext. f = ''generated_image'' @ ds @ ext \<and> isdigit ds \<and> length ext = 4
        \<and> lower ext = ''.png''"
    using d by blast
next
  assume "\<exists>ds ext. f = ''generated_image'' @ ds @ ext \<and> isdigit ds \<and> length ext = 4
        \<and> lower ext = ''.png''"
  then obtain ds ext where f: "f = ''generated_image'' @ (ds @ ext)" and d: "isdigit ds"
    and n: "length ext = 4" and l: "lower ext = ''.png''"
    by auto
  have s: "startswith f ''generated_image''"
    unfolding f by (rule startswith_append)
  have "lower f = (lower ''generated_image'' @ lower ds) @ ''.png''"
    by (simp only: f lower_append l append_assoc)
  then have e: "endswith (lower f) ''.png''"
    by (simp only: endswith_append)
  have "drop 15 (take (length f - 4) f) = ds"
    unfolding f by (rule middle_of_name [OF length_prefix n])
  with s e d show "matches_pattern f"
    by (simp add: matches_pattern_def)
qed

text \<open>
  C2: whenever the scan of the directory delivers an index (so that a file is saved), and
  it has found files matching the pattern \<^verbatim>\<open>generated_image<digits>.png\<close> (the extension in
  any case of letters, as line 140 compares it), that index is the greatest index found
  plus one; when it has found none, the index is 1. The scan delivers an index whenever
  the names of the directory are ASCII strings. The file that the save writes carries
  this index in its name. With \<^verbatim>\<open>generated_image3.png\<close> and \<^verbatim>\<open>generated_image7.png\<close> present
  the next file is \<^verbatim>\<open>generated_image8.png\<close>; in an empty directory the first file is
  \<^verbatim>\<open>generated_image1.png\<close>.
\<close>

theorem next_index_is_max_plus_one:
  "(next_index listing = Inr n \<longrightarrow>
      (found_indices listing \<noteq> [] \<longrightarrow> n = Max (set (found_indices listing)) + 1)
      \<and> (found_indices listing = [] \<longrightarrow> n = 1))
   \<and> ((\<forall>f \<in> set listing. \<forall>c \<in> set f. (of_char c :: nat) < 128) \<longrightarrow>
        (\<exists>n. next_index listing = Inr n))
   \<and> (save_generated env dir b = Inr (enc, dir') \<longrightarrow>
        (\<exists>n png. next_index (listdir dir) = Inr n
           \<and> dir' = write_file dir (output_name n) png))
   \<and> next_index [''generated_image3.png'', ''generated_image7.png''] = Inr 8
   \<and> output_name 8 = ''generated_image8.png''
   \<and> next_index [] = Inr 1
   \<and> output_name 1 = ''generated_image1.png''"
proof -
  have general: "next_index listing = Inr n \<longrightarrow>
      (found_indices listing \<noteq> [] \<longrightarrow> n = Max (set (found_indices listing)) + 1)
      \<and> (found_indices listing = [] \<longrightarrow> n = 1)"
  proof (intro impI conjI)
    assume n: "next_index listing = Inr n"
    show "n = 1" if "found_indices listing = []"
      using next_index_found [OF n] that by simp
    show "n = Max (set (found_indices listing)) + 1" if ne: "found_indices listing \<noteq> []"
    proof -
      have "Max (set (found_indices listing)) \<in> set (found_indices listing)"
        using ne by (intro Max_in) auto
      then have "0 \<le> Max (set (found_indices listing))"
        by (rule found_indices_nonneg)
      then have "Max (set (0 # found_indices listing)) = Max (set (found_indices listing))"
        using ne by (simp add: max_def)
      with next_index_found [OF n] show ?thesis by simp
    qed
  qed
  have total: "(\<forall>f \<in> set listing. \<forall>c \<in> set f. (of_char c :: nat) < 128) \<longrightarrow>
        (\<exists>n. next_index listing = Inr n)"
    using next_index_ascii by blast
  have saved: "save_generated env dir b = Inr (enc, dir') \<longrightarrow>
        (\<exists>n png. next_index (listdir dir) = Inr n
           \<and> dir' = write_file dir (output_name n) png)"
    by (auto simp: save_generated_Inr)
  have ex1: "next_index [''generated_image3.png'', ''generated_image7.png''] = Inr 8"
    by (simp add: scan_eval)
  have ex2: "output_name 8 = ''generated_image8.png''"
    by (simp add: scan_eval)
  have ex3: "next_index [] = Inr 1"
    by (simp add: next_index_def)
  have ex4: "output_name 1 = ''generated_image1.png''"
    by (simp add: scan_eval)
  show ?thesis
    by (intro conjI general total saved ex1 ex2 ex3 ex4)
qed

theorem next_index_is_max_plus_one_witness:
  "next_index [''generated_image12.png'', ''notes.txt'', ''generated_image007.PNG''] = Inr 13
   \<and> found_indices [''generated_image12.png'', ''notes.txt'', ''generated_image007.PNG''] = [12, 7]
   \<and> (13::int)
       = Max (set (found_indices [''generated_image12.png'', ''notes.txt'', ''generated_image007.PNG'']))
         + 1
   \<and> (\<exists>n. next_index [''generated_image12.png'', ''notes.txt'', ''generated_image007.PNG'']
              = Inr n)"
proof -
  let ?l = "[''generated_image12.png'', ''notes.txt'', ''generated_image007.PNG'']"
  have n: "next_index ?l = Inr 13"
    by (simp add: scan_eval)
  have f: "found_indices ?l = [12, 7]"
    by (simp add: scan_eval)
  have ne: "found_indices ?l \<noteq> []"
    by (simp only: f) simp
  have ascii: "\<forall>f \<in> set ?l. \<forall>c \<in> set f. (of_char c :: nat) < 128"
    by simp
  show ?thesis
    using next_index_is_max_plus_one [of ?l 13] n f ne ascii by blast
qed

text \<open>
  C8: for every save of a generated image, the chosen index is greater than the index of
  every file of the directory that matches the pattern, the chosen name is the name of no
  file of the directory, and the directory after the save is the directory before it with
  the new file added at the end: no file is replaced or removed, and every name that was
  present still leads to the same content.
\<close>

theorem save_keeps_existing_files:
  assumes "save_generated env dir b = Inr (enc, dir')"
  shows "\<exists>n png. next_index (listdir dir) = Inr n
          \<and> (\<forall>f \<in> set (listdir dir). matches_pattern f \<longrightarrow> (\<exists>i. file_index f = Some i \<and> i < n))
          \<and> output_name n \<notin> set (listdir dir)
          \<and> dir' = dir @ [(output_name n, png)]
          \<and> (\<forall>f \<in> set (listdir dir). map_of dir' f = map_of dir f)"
proof -
  from assms obtain n png where n: "next_index (listdir dir) = Inr n"
    and d: "dir' = write_file dir (output_name n) png"
    by (auto simp: save_generated_Inr)
  have fresh: "output_name n \<notin> set (listdir dir)"
    by (rule output_name_fresh [OF n])
  have above: "\<forall>f \<in> set (listdir dir). matches_pattern f \<longrightarrow> (\<exists>i. file_index f = Some i \<and> i < n)"
    using next_index_parses [OF n] by blast
  have app: "dir' = dir @ [(output_name n, png)]"
    using d write_file_fresh [OF n] by simp
  have same: "\<forall>f \<in> set (listdir dir). map_of dir' f = map_of dir f"
    using fresh by (auto simp: d write_file_def update_conv')
  show ?thesis
    using n above fresh app same by blast
qed


theorem save_keeps_existing_files_witness:
  "save_generated (example_env (Inl (PyException [])))
      [(''generated_image3.png'', [137]), (''generated_image7.png'', [137, 1])] [137, 2]
     = Inr (''iQI='', [(''generated_image3.png'', [137]), (''generated_image7.png'', [137, 1]),
                       (''generated_image8.png'', [137, 2])])
   \<and> (\<exists>n. next_index [''generated_image3.png'', ''generated_image7.png''] = Inr n
          \<and> output_name n \<notin> set [''generated_image3.png'', ''generated_image7.png''])"
proof -
  let ?env = "example_env (Inl (PyException []))"
  let ?dir = "[(''generated_image3.png'', [137]), (''generated_image7.png'', [137, 1])] :: directory"
  let ?dir' = "[(''generated_image3.png'', [137]), (''generated_image7.png'', [137, 1]),
                (''generated_image8.png'', [137, 2])] :: directory"
  have s: "save_generated ?env ?dir [137, 2] = Inr (''iQI='', ?dir')"
    by (simp add: save_generated_def example_env_def example_open_def listdir_def
        write_file_def scan_eval b64_char_def)
  have l: "listdir ?dir = [''generated_image3.png'', ''generated_image7.png'']"
    by (simp add: listdir_def)
  show ?thesis
    using save_keeps_existing_files [OF s] s unfolding l by blast
qed

subsection \<open>The loop over the parts\<close>


lemma max_index_ge: "max_index xs m = Inr r \<Longrightarrow> m \<le> r"
proof (induction xs arbitrary: m)
  case Nil
  then show ?case by simp
next
  case (Cons x xs)
  from Cons.prems obtain m' where "max_index xs m' = Inr r" and "m \<le> m'"
    by (auto simp: max_index_step simp del: max_index.simps split: if_splits sum.splits)
  with Cons.IH show ?case by fastforce
qed




lemma process_part_image:
  assumes "is_image_part p"
  shows "process_part env st p =
           (case save_generated env (generated_dir st) (raw_bytes p) of
              Inr (encoded, dir') \<Rightarrow>
                st\<lparr>generated_image_base64 := Some encoded, generated_dir := dir'\<rparr>
            | Inl e \<Rightarrow> st\<lparr>generated_image_base64 := Some (b64encode (raw_bytes p))\<rparr>)"
  using assms
  by (auto simp: process_part_def image_branch_def is_image_part_def raw_bytes_def Let_def
      split: option.splits sum.splits)

lemma process_part_other:
  assumes "\<not> is_image_part p"
  shows "generated_image_base64 (process_part env st p) = generated_image_base64 st"
    and "generated_dir (process_part env st p) = generated_dir st"
  using assms
  by (auto simp: process_part_def image_branch_def is_image_part_def split: option.splits)




lemma process_parts_Cons:
  "process_parts env (p # ps) st = process_parts env ps (process_part env st p)"
  by (simp add: process_parts_def)





lemma process_parts_append:
  "process_parts env (ps @ qs) st = process_parts env qs (process_parts env ps st)"
  by (simp add: process_parts_def)

lemma process_parts_no_image:
  assumes "\<forall>q \<in> set qs. \<not> is_image_part q"
  shows "generated_image_base64 (process_parts env qs st) = generated_image_base64 st
       \<and> generated_dir (process_parts env qs st) = generated_dir st"
  using assms
proof (induction qs arbitrary: st)
  case Nil
  show ?case by (simp add: process_parts_def)
next
  case (Cons q qs)
  then show ?case
    by (simp add: process_parts_Cons process_part_other)
qed





lemma generate_tattoo_after_photo:
  assumes "photo req = Inr b" and "image_open env b = Inr img" and "save_png env img = Inr png"
  shows "generate_tattoo env dir req =
           (case generate_content env (build_contents env (request_prompt req) img (reference req)) of
              Inl e \<Rightarrow> (error_page e, dir)
            | Inr resp \<Rightarrow>
                (render req (b64encode png)
                   (process_parts env (case parts resp of None \<Rightarrow> [] | Some ps \<Rightarrow> ps)
                      (initial_state dir)),
                 generated_dir
                   (process_parts env (case parts resp of None \<Rightarrow> [] | Some ps \<Rightarrow> ps)
                      (initial_state dir))))"
  using assms by (simp add: generate_tattoo_def try_block_def Let_def split: sum.splits)

lemma generate_tattoo_answered:
  assumes "photo req = Inr b" and "image_open env b = Inr img" and "save_png env img = Inr png"
    and "generate_content env (build_contents env (request_prompt req) img (reference req)) = Inr resp"
    and "parts resp = Some ps"
  shows "generate_tattoo env dir req =
           (render req (b64encode png) (process_parts env ps (initial_state dir)),
            generated_dir (process_parts env ps (initial_state dir)))"
  by (simp add: generate_tattoo_after_photo [OF assms(1,2,3)] assms(4,5))

lemma returned_image_render:
  "returned_image_base64 (render req u st) = generated_image_base64 st"
  by (simp add: render_def Let_def)

lemma initial_state_sel:
  "generated_dir (initial_state dir) = dir"
  "generated_image_base64 (initial_state dir) = None"
  "generated_text (initial_state dir) = []"
  by (simp_all add: initial_state_def)


lemmas example_eval = example_env_def example_open_def example_request_def image_part_def



subsection \<open>The answer of the handler\<close>

lemma process_parts_single: "process_parts env [p] st = process_part env st p"
  by (simp add: process_parts_def)

text \<open>
  C5: when the \<^verbatim>\<open>Accept\<close> header contains \<^verbatim>\<open>application/json\<close>, the photo has been read,
  opened and encoded, and the model answers with exactly one part, an image part, the
  answer of the handler is the JSON body with the empty text and an image string that is
  not null: the encoding of the saved image when the save succeeds, the encoding of the
  raw bytes otherwise.
\<close>

theorem json_body_for_single_image_part:
  assumes "accept req = Some a" and "contains ''application/json'' a"
    and "photo req = Inr b" and "image_open env b = Inr img" and "save_png env img = Inr png"
    and "generate_content env (build_contents env (request_prompt req) img (reference req)) = Inr resp"
    and "parts resp = Some [p]" and "is_image_part p"
  shows "fst (generate_tattoo env dir req)
           = JSONResponse []
               (Some (case save_generated env dir (raw_bytes p) of
                        Inr (encoded, dir') \<Rightarrow> encoded
                      | Inl e \<Rightarrow> b64encode (raw_bytes p)))"
proof -
  have st: "process_parts env [p] (initial_state dir)
              = (case save_generated env dir (raw_bytes p) of
                   Inr (encoded, dir') \<Rightarrow>
                     (initial_state dir)\<lparr>generated_image_base64 := Some encoded, generated_dir := dir'\<rparr>
                 | Inl e \<Rightarrow>
                     (initial_state dir)\<lparr>generated_image_base64 := Some (b64encode (raw_bytes p))\<rparr>)"
    by (simp add: process_parts_single process_part_image [OF assms(8)] initial_state_sel)
  have "fst (generate_tattoo env dir req)
          = render req (b64encode png) (process_parts env [p] (initial_state dir))"
    by (simp add: generate_tattoo_answered [OF assms(3-7)])
  also have "\<dots> = JSONResponse (generated_text (process_parts env [p] (initial_state dir)))
                      (generated_image_base64 (process_parts env [p] (initial_state dir)))"
    using assms(1,2) by (simp add: render_def)
  also have "\<dots> = JSONResponse []
               (Some (case save_generated env dir (raw_bytes p) of
                        Inr (encoded, dir') \<Rightarrow> encoded
                      | Inl e \<Rightarrow> b64encode (raw_bytes p)))"
    by (simp add: st initial_state_sel split: sum.splits)
  finally show ?thesis .
qed

theorem json_body_for_single_image_part_witness:
  "fst (generate_tattoo (example_env (Inr \<lparr>parts = Some [image_part [137, 2]]\<rparr>)) []
          (example_request (Some ''text/html, application/json'') None))
     = JSONResponse [] (Some ''iQI='')"
proof -
  let ?p = "image_part [137, 2]"
  let ?env = "example_env (Inr \<lparr>parts = Some [?p]\<rparr>)"
  let ?req = "example_request (Some ''text/html, application/json'') None"
  have h1: "accept ?req = Some ''text/html, application/json''" by (simp add: example_eval)
  have h2: "contains ''application/json'' ''text/html, application/json''"
    by (simp add: startswith_def)
  have h3: "photo ?req = Inr [137, 80]" by (simp add: example_eval)
  have h4: "image_open ?env [137, 80] = Inr [137, 80]" by (simp add: example_eval)
  have h5: "save_png ?env [137, 80] = Inr [137, 80]" by (simp add: example_eval)
  have h6: "generate_content ?env
              (build_contents ?env (request_prompt ?req) [137, 80] (reference ?req))
            = Inr \<lparr>parts = Some [?p]\<rparr>"
    by (simp add: example_env_def)
  have h7: "parts \<lparr>parts = Some [?p]\<rparr> = Some [?p]" by simp
  have h8: "is_image_part ?p" by (simp add: is_image_part_def image_part_def)
  have s: "save_generated ?env [] (raw_bytes ?p) = Inr (''iQI='', [(''generated_image1.png'', [137, 2])])"
    by (simp add: save_generated_def raw_bytes_def bytes_or_empty_def example_eval listdir_def
        write_file_def scan_eval b64_char_def)
  show ?thesis
    using json_body_for_single_image_part [OF h1 h2 h3 h4 h5 h6 h7 h8, of "[]"]
    by (simp only: s) simp
qed

lemma process_part_undecodable:
  assumes "is_image_part p" and "image_open env (raw_bytes p) = Inl e"
  shows "process_part env st p = st\<lparr>generated_image_base64 := Some (b64encode (raw_bytes p))\<rparr>"
  by (simp add: process_part_image [OF assms(1)] save_generated_def assms(2))

text \<open>
  C6, as amended: an image part whose bytes do not open sets the image string to the
  base64 encoding of exactly those bytes (of no bytes when the data is \<^verbatim>\<open>None\<close>) and
  changes nothing else, so no file is written for it; the request returns that string
  when no image part follows it in the answer.
\<close>

theorem undecodable_part_falls_back:
  assumes "is_image_part p" and "image_open env (raw_bytes p) = Inl e"
  shows "process_part env st p = st\<lparr>generated_image_base64 := Some (b64encode (raw_bytes p))\<rparr>
       \<and> (\<forall>bl. inline_data p = Some bl \<and> data bl = None \<longrightarrow> raw_bytes p = [])
       \<and> (photo req = Inr b \<and> image_open env b = Inr img \<and> save_png env img = Inr png
            \<and> generate_content env (build_contents env (request_prompt req) img (reference req))
                = Inr resp
            \<and> parts resp = Some (ps @ p # qs) \<and> (\<forall>q \<in> set qs. \<not> is_image_part q)
          \<longrightarrow> returned_image_base64 (fst (generate_tattoo env dir req))
                = Some (b64encode (raw_bytes p))
              \<and> snd (generate_tattoo env dir req)
                = generated_dir (process_parts env ps (initial_state dir)))"
proof (intro conjI allI impI)
  show "process_part env st p = st\<lparr>generated_image_base64 := Some (b64encode (raw_bytes p))\<rparr>"
    by (rule process_part_undecodable [OF assms])
next
  fix bl
  assume "inline_data p = Some bl \<and> data bl = None"
  then show "raw_bytes p = []"
    by (simp add: raw_bytes_def bytes_or_empty_def)
next
  assume h: "photo req = Inr b \<and> image_open env b = Inr img \<and> save_png env img = Inr png
            \<and> generate_content env (build_contents env (request_prompt req) img (reference req))
                = Inr resp
            \<and> parts resp = Some (ps @ p # qs) \<and> (\<forall>q \<in> set qs. \<not> is_image_part q)"
  then have h1: "photo req = Inr b" and h2: "image_open env b = Inr img"
    and h3: "save_png env img = Inr png"
    and h4: "generate_content env (build_contents env (request_prompt req) img (reference req))
               = Inr resp"
    and h5: "parts resp = Some (ps @ p # qs)"
    by simp_all
  have answered: "generate_tattoo env dir req =
      (render req (b64encode png) (process_parts env (ps @ p # qs) (initial_state dir)),
       generated_dir (process_parts env (ps @ p # qs) (initial_state dir)))"
    by (rule generate_tattoo_answered [OF h1 h2 h3 h4 h5])
  let ?st = "process_parts env ps (initial_state dir)"
  have split: "process_parts env (ps @ p # qs) (initial_state dir)
                 = process_parts env qs (process_part env ?st p)"
    by (simp add: process_parts_append process_parts_Cons)
  from h have rest: "\<forall>q \<in> set qs. \<not> is_image_part q" by simp
  note tail = process_parts_no_image [OF rest, of env "process_part env ?st p"]
  show "returned_image_base64 (fst (generate_tattoo env dir req)) = Some (b64encode (raw_bytes p))"
    using tail by (simp add: answered returned_image_render split process_part_undecodable [OF assms])
  show "snd (generate_tattoo env dir req) = generated_dir (process_parts env ps (initial_state dir))"
    using tail by (simp add: answered split process_part_undecodable [OF assms])
qed


theorem undecodable_part_falls_back_witness:
  "returned_image_base64 (fst (generate_tattoo
      (example_env (Inr \<lparr>parts = Some [image_part [137, 1],
                                        \<lparr>part_text = None, inline_data = Some \<lparr>data = None\<rparr>\<rparr>,
                                        \<lparr>part_text = Some ''done'', inline_data = None\<rparr>]\<rparr>))
      [] (example_request None None)))
     = Some []
   \<and> snd (generate_tattoo
      (example_env (Inr \<lparr>parts = Some [image_part [137, 1],
                                        \<lparr>part_text = None, inline_data = Some \<lparr>data = None\<rparr>\<rparr>,
                                        \<lparr>part_text = Some ''done'', inline_data = None\<rparr>]\<rparr>))
      [] (example_request None None))
     = [(''generated_image1.png'', [137, 1])]"
proof -
  let ?p = "\<lparr>part_text = None, inline_data = Some \<lparr>data = None\<rparr>\<rparr>"
  let ?q = "\<lparr>part_text = Some ''done'', inline_data = None\<rparr>"
  let ?resp = "\<lparr>parts = Some [image_part [137, 1], ?p, ?q]\<rparr>"
  let ?env = "example_env (Inr ?resp)"
  let ?req = "example_request None None"
  have i: "is_image_part ?p" by (simp add: is_image_part_def)
  have raw: "raw_bytes ?p = []" by (simp add: raw_bytes_def bytes_or_empty_def)
  have u: "image_open ?env (raw_bytes ?p) = Inl (PyException ''cannot identify image file'')"
    by (simp add: raw example_eval)
  have h: "photo ?req = Inr [137, 80] \<and> image_open ?env [137, 80] = Inr [137, 80]
           \<and> save_png ?env [137, 80] = Inr [137, 80]
           \<and> generate_content ?env
                (build_contents ?env (request_prompt ?req) [137, 80] (reference ?req)) = Inr ?resp
           \<and> parts ?resp = Some ([image_part [137, 1]] @ ?p # [?q])
           \<and> (\<forall>q \<in> set [?q]. \<not> is_image_part q)"
    by (simp add: example_eval is_image_part_def)
  have d: "generated_dir (process_parts ?env [image_part [137, 1]] (initial_state []))
             = [(''generated_image1.png'', [137, 1])]"
    by (simp add: process_parts_def process_part_def image_branch_def save_generated_def
        bytes_or_empty_def initial_state_def example_eval listdir_def write_file_def scan_eval)
  from undecodable_part_falls_back [OF i u, of _ ?req "[137, 80]" "[137, 80]" "[137, 80]" ?resp
      "[image_part [137, 1]]" "[?q]" "[]"] h
  have "returned_image_base64 (fst (generate_tattoo ?env [] ?req)) = Some (b64encode (raw_bytes ?p))
      \<and> snd (generate_tattoo ?env [] ?req)
          = generated_dir (process_parts ?env [image_part [137, 1]] (initial_state []))"
    by blast
  then show ?thesis
    by (simp only: raw d b64encode.simps)
qed

text \<open>
  C6 as stated fails when a later image part follows: of two image parts that both fail
  to open, the request returns the encoding of the second one, not of the first.
\<close>

theorem undecodable_part_overwritten_counterexample:
  "is_image_part (image_part [1])
   \<and> image_open (example_env (Inr \<lparr>parts = Some [image_part [1], image_part [2]]\<rparr>))
        (raw_bytes (image_part [1]))
       = Inl (PyException ''cannot identify image file'')
   \<and> b64encode (raw_bytes (image_part [1])) = ''AQ==''
   \<and> returned_image_base64 (fst (generate_tattoo
        (example_env (Inr \<lparr>parts = Some [image_part [1], image_part [2]]\<rparr>)) []
        (example_request (Some ''application/json'') None)))
       = Some ''Ag=='' "
  by (simp add: generate_tattoo_def try_block_def render_def process_parts_def process_part_def
      image_branch_def
      save_generated_def bytes_or_empty_def initial_state_def example_eval is_image_part_def
      raw_bytes_def b64_char_def startswith_def)

lemma build_contents_cases:
  "build_contents env prompt img None = [Prompt prompt, Picture img]"
  "build_contents env prompt img (Some (Inl e)) = [Prompt prompt, Picture img]"
  "image_open env rb = Inl e \<Longrightarrow>
     build_contents env prompt img (Some (Inr rb)) = [Prompt prompt, Picture img]"
  "image_open env rb = Inr rimg \<Longrightarrow>
     build_contents env prompt img (Some (Inr rb)) = [Prompt prompt, Picture img, Picture rimg]"
  by (simp_all add: build_contents_def)

text \<open>
  C7: when a reference was uploaded and reading it or opening it raises, the list handed
  to the model is exactly the prompt and the photo (with a reference that opens it has
  the reference as third item), and a request whose photo was processed goes on to call
  the model with that list: its answer is decided by the model's answer alone.
\<close>

theorem failed_reference_is_left_out:
  assumes "reference req = Some upload"
    and "upload = Inl e \<or> (\<exists>rb. upload = Inr rb \<and> image_open env rb = Inl e)"
  shows "build_contents env (request_prompt req) img (reference req)
           = [Prompt (request_prompt req), Picture img]
       \<and> (\<forall>rb' rimg. image_open env rb' = Inr rimg \<longrightarrow>
            build_contents env (request_prompt req) img (Some (Inr rb'))
              = [Prompt (request_prompt req), Picture img, Picture rimg])
       \<and> (photo req = Inr b \<and> image_open env b = Inr img \<and> save_png env img = Inr png \<longrightarrow>
            generate_tattoo env dir req =
              (case generate_content env [Prompt (request_prompt req), Picture img] of
                 Inl e' \<Rightarrow> (error_page e', dir)
               | Inr resp \<Rightarrow>
                   (render req (b64encode png)
                      (process_parts env (case parts resp of None \<Rightarrow> [] | Some ps \<Rightarrow> ps)
                         (initial_state dir)),
                    generated_dir
                      (process_parts env (case parts resp of None \<Rightarrow> [] | Some ps \<Rightarrow> ps)
                         (initial_state dir)))))"
proof -
  have c: "build_contents env (request_prompt req) img (reference req)
             = [Prompt (request_prompt req), Picture img]"
    using assms by (auto simp: build_contents_cases)
  show ?thesis
  proof (intro conjI impI allI)
    show "build_contents env (request_prompt req) img (reference req)
            = [Prompt (request_prompt req), Picture img]"
      by (rule c)
  next
    fix rb' rimg
    assume "image_open env rb' = Inr rimg"
    then show "build_contents env (request_prompt req) img (Some (Inr rb'))
                 = [Prompt (request_prompt req), Picture img, Picture rimg]"
      by (rule build_contents_cases(4))
  next
    assume "photo req = Inr b \<and> image_open env b = Inr img \<and> save_png env img = Inr png"
    then have h1: "photo req = Inr b" and h2: "image_open env b = Inr img"
      and h3: "save_png env img = Inr png"
      by simp_all
    show "generate_tattoo env dir req =
              (case generate_content env [Prompt (request_prompt req), Picture img] of
                 Inl e' \<Rightarrow> (error_page e', dir)
               | Inr resp \<Rightarrow>
                   (render req (b64encode png)
                      (process_parts env (case parts resp of None \<Rightarrow> [] | Some ps \<Rightarrow> ps)
                         (initial_state dir)),
                    generated_dir
                      (process_parts env (case parts resp of None \<Rightarrow> [] | Some ps \<Rightarrow> ps)
                         (initial_state dir))))"
      by (simp only: generate_tattoo_after_photo [OF h1 h2 h3] c)
  qed
qed

theorem failed_reference_is_left_out_witness:
  "build_contents (example_env (Inr \<lparr>parts = None\<rparr>))
      (request_prompt (example_request (Some ''application/json'') (Some (Inr [1, 2]))))
      [137, 80]
      (reference (example_request (Some ''application/json'') (Some (Inr [1, 2]))))
     = [Prompt (request_prompt (example_request (Some ''application/json'') (Some (Inr [1, 2])))),
        Picture [137, 80]]
   \<and> generate_tattoo (example_env (Inr \<lparr>parts = None\<rparr>)) []
        (example_request (Some ''application/json'') (Some (Inr [1, 2])))
     = (JSONResponse [] None, [])"
proof -
  let ?env = "example_env (Inr \<lparr>parts = None\<rparr>)"
  let ?req = "example_request (Some ''application/json'') (Some (Inr [1, 2]))"
  have r: "reference ?req = Some (Inr [1, 2])" by (simp add: example_eval)
  have f: "Inr [1, 2] = Inl (PyException ''cannot identify image file'')
           \<or> (\<exists>rb. (Inr [1, 2] :: py_exception + bytes) = Inr rb
                \<and> image_open ?env rb = Inl (PyException ''cannot identify image file''))"
    by (simp add: example_eval)
  have h: "photo ?req = Inr [137, 80] \<and> image_open ?env [137, 80] = Inr [137, 80]
           \<and> save_png ?env [137, 80] = Inr [137, 80]"
    by (simp add: example_eval)
  have g: "generate_content ?env [Prompt (request_prompt ?req), Picture [137, 80]]
             = Inr \<lparr>parts = None\<rparr>"
    by (simp add: example_env_def)
  have a: "render ?req (b64encode [137, 80]) (process_parts ?env [] (initial_state []))
             = JSONResponse [] None"
    by (simp add: render_def process_parts_def initial_state_def example_request_def
        startswith_def)
  from failed_reference_is_left_out [OF r f, of "[137, 80]" "[137, 80]" "[137, 80]" "[]"] h
  have "build_contents ?env (request_prompt ?req) [137, 80] (reference ?req)
           = [Prompt (request_prompt ?req), Picture [137, 80]]"
    and "generate_tattoo ?env [] ?req =
              (case generate_content ?env [Prompt (request_prompt ?req), Picture [137, 80]] of
                 Inl e' \<Rightarrow> (error_page e', [])
               | Inr resp \<Rightarrow>
                   (render ?req (b64encode [137, 80])
                      (process_parts ?env (case parts resp of None \<Rightarrow> [] | Some ps \<Rightarrow> ps)
                         (initial_state [])),
                    generated_dir
                      (process_parts ?env (case parts resp of None \<Rightarrow> [] | Some ps \<Rightarrow> ps)
                         (initial_state []))))"
    by blast+
  then show ?thesis
    by (simp only: g sum.case response.simps option.case a)
       (simp add: process_parts_def initial_state_def)
qed


lemma error_page_not_render: "render req u st \<noteq> TemplateResponse None (Some msg)"
  by (simp add: render_def Let_def)

lemma try_block_cases:
  "photo req = Inl e \<Longrightarrow> try_block env dir req = (Inl e, dir)"
  "photo req = Inr b \<Longrightarrow> image_open env b = Inl e \<Longrightarrow> try_block env dir req = (Inl e, dir)"
  "photo req = Inr b \<Longrightarrow> image_open env b = Inr img \<Longrightarrow> save_png env img = Inl e
     \<Longrightarrow> try_block env dir req = (Inl e, dir)"
  "photo req = Inr b \<Longrightarrow> image_open env b = Inr img \<Longrightarrow> save_png env img = Inr png
     \<Longrightarrow> generate_content env (build_contents env (request_prompt req) img (reference req)) = Inl e
     \<Longrightarrow> try_block env dir req = (Inl e, dir)"
  "photo req = Inr b \<Longrightarrow> image_open env b = Inr img \<Longrightarrow> save_png env img = Inr png
     \<Longrightarrow> generate_content env (build_contents env (request_prompt req) img (reference req))
          = Inr resp
     \<Longrightarrow> try_block env dir req =
           (Inr (render req (b64encode png)
                   (process_parts env (case parts resp of None \<Rightarrow> [] | Some ps \<Rightarrow> ps)
                      (initial_state dir))),
            generated_dir
              (process_parts env (case parts resp of None \<Rightarrow> [] | Some ps \<Rightarrow> ps)
                 (initial_state dir)))"
  by (simp_all add: try_block_def Let_def)

lemma outcome_of_exception:
  assumes "try_block env dir req = (Inl e, dir')" and "raises (error_page e) = None"
  shows "generate_tattoo_outcome raises env dir req
           = (Response (TemplateResponse None (Some (str e))), dir')"
  using assms by (simp add: generate_tattoo_outcome_def except_clause_def error_page_def)

lemma outcome_of_response:
  assumes "try_block env dir req = (Inr r, dir')"
  shows "raises r = None \<Longrightarrow> generate_tattoo_outcome raises env dir req = (Response r, dir')"
    and "raises r = Some e \<Longrightarrow> raises (error_page e) = None \<Longrightarrow>
           generate_tattoo_outcome raises env dir req
             = (Response (TemplateResponse None (Some (str e))), dir')"
  using assms by (simp_all add: generate_tattoo_outcome_def except_clause_def error_page_def)

lemma outcome_without_faults:
  assumes "\<And>r. raises r = None"
  shows "generate_tattoo_outcome raises env dir req
           = (Response (fst (generate_tattoo env dir req)), snd (generate_tattoo env dir req))"
  by (simp add: generate_tattoo_outcome_def generate_tattoo_def except_clause_def assms
      split: prod.splits sum.splits)

text \<open>
  C3, as amended: when an exception is raised in the \<^verbatim>\<open>try\<close> outside the two inner
  handlers, that is by reading, opening or encoding the photo, by the call of the model,
  or by constructing the response of the result, the \<^verbatim>\<open>except\<close> clause builds the page
  template with the text of the exception as error and no result, and the handler returns
  it when building that page does not raise in turn. When none of these raises, the
  handler returns the response of the result, which is never the error page, whatever
  exceptions the reference image or the generated images have raised on the way.
\<close>

theorem unrecovered_exception_renders_error_page:
  "(raises (error_page e) = None \<longrightarrow>
      (photo req = Inl e \<longrightarrow>
         generate_tattoo_outcome raises env dir req
           = (Response (TemplateResponse None (Some (str e))), dir))
      \<and> (photo req = Inr b \<and> image_open env b = Inl e \<longrightarrow>
         generate_tattoo_outcome raises env dir req
           = (Response (TemplateResponse None (Some (str e))), dir))
      \<and> (photo req = Inr b \<and> image_open env b = Inr img \<and> save_png env img = Inl e \<longrightarrow>
         generate_tattoo_outcome raises env dir req
           = (Response (TemplateResponse None (Some (str e))), dir))
      \<and> (photo req = Inr b \<and> image_open env b = Inr img \<and> save_png env img = Inr png
           \<and> generate_content env (build_contents env (request_prompt req) img (reference req))
               = Inl e \<longrightarrow>
         generate_tattoo_outcome raises env dir req
           = (Response (TemplateResponse None (Some (str e))), dir))
      \<and> (photo req = Inr b \<and> image_open env b = Inr img \<and> save_png env img = Inr png
           \<and> generate_content env (build_contents env (request_prompt req) img (reference req))
               = Inr resp
           \<and> raises (render req (b64encode png)
                        (process_parts env (case parts resp of None \<Rightarrow> [] | Some ps \<Rightarrow> ps)
                           (initial_state dir)))
               = Some e \<longrightarrow>
         fst (generate_tattoo_outcome raises env dir req)
           = Response (TemplateResponse None (Some (str e)))))
   \<and> (photo req = Inr b \<and> image_open env b = Inr img \<and> save_png env img = Inr png
        \<and> generate_content env (build_contents env (request_prompt req) img (reference req))
            = Inr resp
        \<and> raises (render req (b64encode png)
                     (process_parts env (case parts resp of None \<Rightarrow> [] | Some ps \<Rightarrow> ps)
                        (initial_state dir)))
            = None \<longrightarrow>
      fst (generate_tattoo_outcome raises env dir req)
        = Response (render req (b64encode png)
            (process_parts env (case parts resp of None \<Rightarrow> [] | Some ps \<Rightarrow> ps)
               (initial_state dir)))
      \<and> (\<forall>msg. render req (b64encode png)
                  (process_parts env (case parts resp of None \<Rightarrow> [] | Some ps \<Rightarrow> ps)
                     (initial_state dir))
                \<noteq> TemplateResponse None (Some msg)))"
proof (intro conjI impI)
  assume page: "raises (error_page e) = None"
  show "generate_tattoo_outcome raises env dir req
          = (Response (TemplateResponse None (Some (str e))), dir)"
    if "photo req = Inl e"
    using that page by (intro outcome_of_exception try_block_cases(1))
  show "generate_tattoo_outcome raises env dir req
          = (Response (TemplateResponse None (Some (str e))), dir)"
    if "photo req = Inr b \<and> image_open env b = Inl e"
    using that page by (intro outcome_of_exception try_block_cases(2) [of req b]) simp_all
  show "generate_tattoo_outcome raises env dir req
          = (Response (TemplateResponse None (Some (str e))), dir)"
    if "photo req = Inr b \<and> image_open env b = Inr img \<and> save_png env img = Inl e"
    using that page
    by (intro outcome_of_exception try_block_cases(3) [of req b env img]) simp_all
  show "generate_tattoo_outcome raises env dir req
          = (Response (TemplateResponse None (Some (str e))), dir)"
    if "photo req = Inr b \<and> image_open env b = Inr img \<and> save_png env img = Inr png
        \<and> generate_content env (build_contents env (request_prompt req) img (reference req))
            = Inl e"
    using that page
    by (intro outcome_of_exception try_block_cases(4) [of req b env img png]) simp_all
  show "fst (generate_tattoo_outcome raises env dir req)
          = Response (TemplateResponse None (Some (str e)))"
    if h: "photo req = Inr b \<and> image_open env b = Inr img \<and> save_png env img = Inr png
        \<and> generate_content env (build_contents env (request_prompt req) img (reference req))
            = Inr resp
        \<and> raises (render req (b64encode png)
                     (process_parts env (case parts resp of None \<Rightarrow> [] | Some ps \<Rightarrow> ps)
                        (initial_state dir)))
            = Some e"
  proof -
    from h have t: "try_block env dir req =
           (Inr (render req (b64encode png)
                   (process_parts env (case parts resp of None \<Rightarrow> [] | Some ps \<Rightarrow> ps)
                      (initial_state dir))),
            generated_dir
              (process_parts env (case parts resp of None \<Rightarrow> [] | Some ps \<Rightarrow> ps)
                 (initial_state dir)))"
      by (intro try_block_cases(5) [of req b env img png]) simp_all
    from h have "raises (render req (b64encode png)
                     (process_parts env (case parts resp of None \<Rightarrow> [] | Some ps \<Rightarrow> ps)
                        (initial_state dir))) = Some e"
      by simp
    with outcome_of_response(2) [OF t, where raises = raises and e = e] page
    show ?thesis by simp
  qed
next
  assume h: "photo req = Inr b \<and> image_open env b = Inr img \<and> save_png env img = Inr png
        \<and> generate_content env (build_contents env (request_prompt req) img (reference req))
            = Inr resp
        \<and> raises (render req (b64encode png)
                     (process_parts env (case parts resp of None \<Rightarrow> [] | Some ps \<Rightarrow> ps)
                        (initial_state dir)))
            = None"
  then have t: "try_block env dir req =
           (Inr (render req (b64encode png)
                   (process_parts env (case parts resp of None \<Rightarrow> [] | Some ps \<Rightarrow> ps)
                      (initial_state dir))),
            generated_dir
              (process_parts env (case parts resp of None \<Rightarrow> [] | Some ps \<Rightarrow> ps)
                 (initial_state dir)))"
    by (intro try_block_cases(5) [of req b env img png]) simp_all
  from h have "raises (render req (b64encode png)
                     (process_parts env (case parts resp of None \<Rightarrow> [] | Some ps \<Rightarrow> ps)
                        (initial_state dir))) = None"
    by simp
  with outcome_of_response(1) [OF t, where raises = raises]
  show "fst (generate_tattoo_outcome raises env dir req)
        = Response (render req (b64encode png)
            (process_parts env (case parts resp of None \<Rightarrow> [] | Some ps \<Rightarrow> ps)
               (initial_state dir)))"
    by simp
next
  show "\<forall>msg. render req (b64encode png)
                  (process_parts env (case parts resp of None \<Rightarrow> [] | Some ps \<Rightarrow> ps)
                     (initial_state dir))
                \<noteq> TemplateResponse None (Some msg)"
    by (simp add: error_page_not_render)
qed

theorem unrecovered_exception_renders_error_page_witness:
  "generate_tattoo_outcome (\<lambda>r. None) (example_env (Inl (PyException ''503 model overloaded''))) []
      (example_request (Some ''application/json'') None)
     = (Response (TemplateResponse None (Some ''503 model overloaded'')), [])
   \<and> generate_tattoo_outcome (\<lambda>r. None) (example_env (Inr \<lparr>parts = None\<rparr>)) []
      ((example_request None None)\<lparr>photo := Inr [71, 73, 70]\<rparr>)
     = (Response (TemplateResponse None (Some ''cannot identify image file'')), [])
   \<and> fst (generate_tattoo_outcome json_raises (example_env (Inr \<lparr>parts = None\<rparr>)) []
        (example_request (Some ''application/json'') None))
     = Response (TemplateResponse None (Some ''not JSON serializable''))
   \<and> fst (generate_tattoo_outcome (\<lambda>r. None) (example_env (Inr \<lparr>parts = None\<rparr>)) []
        (example_request (Some ''application/json'') (Some (Inl (PyException ''closed file'')))))
     = Response (JSONResponse [] None)"
proof -
  let ?e = "PyException ''503 model overloaded''"
  let ?env = "example_env (Inl ?e)"
  let ?req = "example_request (Some ''application/json'') None"
  let ?ok = "\<lambda>r::http_response. None :: py_exception option"
  have h: "photo ?req = Inr [137, 80] \<and> image_open ?env [137, 80] = Inr [137, 80]
           \<and> save_png ?env [137, 80] = Inr [137, 80]
           \<and> generate_content ?env
                (build_contents ?env (request_prompt ?req) [137, 80] (reference ?req)) = Inl ?e"
    by (simp add: example_eval)
  let ?f = "PyException ''cannot identify image file''"
  let ?env' = "example_env (Inr \<lparr>parts = None\<rparr>)"
  let ?req' = "(example_request None None)\<lparr>photo := Inr [71, 73, 70]\<rparr>"
  have h': "photo ?req' = Inr [71, 73, 70] \<and> image_open ?env' [71, 73, 70] = Inl ?f"
    by (simp add: example_eval)
  let ?g = "PyException ''not JSON serializable''"
  have r: "render ?req (b64encode [137, 80])
             (process_parts ?env' (case parts \<lparr>parts = None\<rparr> of None \<Rightarrow> [] | Some ps \<Rightarrow> ps)
                (initial_state []))
           = JSONResponse [] None"
    by (simp add: render_def process_parts_def initial_state_def example_request_def
        startswith_def)
  have h'': "photo ?req = Inr [137, 80] \<and> image_open ?env' [137, 80] = Inr [137, 80]
           \<and> save_png ?env' [137, 80] = Inr [137, 80]
           \<and> generate_content ?env'
                (build_contents ?env' (request_prompt ?req) [137, 80] (reference ?req))
               = Inr \<lparr>parts = None\<rparr>
           \<and> json_raises (render ?req (b64encode [137, 80])
                (process_parts ?env' (case parts \<lparr>parts = None\<rparr> of None \<Rightarrow> [] | Some ps \<Rightarrow> ps)
                   (initial_state [])))
               = Some ?g"
    by (simp only: r) (simp add: example_eval json_raises_def)
  have p: "?ok (error_page ?e) = None" "?ok (error_page ?f) = None"
    "json_raises (error_page ?g) = None"
    by (simp_all add: json_raises_def error_page_def)
  from unrecovered_exception_renders_error_page
         [of ?ok ?e ?req ?env "[]" "[137, 80]" "[137, 80]" "[137, 80]"] h p(1)
  have one: "generate_tattoo_outcome ?ok ?env [] ?req
               = (Response (TemplateResponse None (Some (str ?e))), [])"
    by blast
  from unrecovered_exception_renders_error_page [of ?ok ?f ?req' ?env' "[]" "[71, 73, 70]"] h' p(2)
  have two: "generate_tattoo_outcome ?ok ?env' [] ?req'
               = (Response (TemplateResponse None (Some (str ?f))), [])"
    by blast
  from unrecovered_exception_renders_error_page
         [of json_raises ?g ?req ?env' "[]" "[137, 80]" "[137, 80]" "[137, 80]" "\<lparr>parts = None\<rparr>"]
       h'' p(3)
  have three: "fst (generate_tattoo_outcome json_raises ?env' [] ?req)
                 = Response (TemplateResponse None (Some (str ?g)))"
    by blast
  let ?req'' = "example_request (Some ''application/json'') (Some (Inl (PyException ''closed file'')))"
  have r'': "render ?req'' (b64encode [137, 80])
             (process_parts ?env' (case parts \<lparr>parts = None\<rparr> of None \<Rightarrow> [] | Some ps \<Rightarrow> ps)
                (initial_state []))
           = JSONResponse [] None"
    by (simp add: render_def process_parts_def initial_state_def example_request_def
        startswith_def)
  have h''': "photo ?req'' = Inr [137, 80] \<and> image_open ?env' [137, 80] = Inr [137, 80]
           \<and> save_png ?env' [137, 80] = Inr [137, 80]
           \<and> generate_content ?env'
                (build_contents ?env' (request_prompt ?req'') [137, 80] (reference ?req''))
               = Inr \<lparr>parts = None\<rparr>
           \<and> ?ok (render ?req'' (b64encode [137, 80])
                (process_parts ?env' (case parts \<lparr>parts = None\<rparr> of None \<Rightarrow> [] | Some ps \<Rightarrow> ps)
                   (initial_state [])))
               = None"
    by (simp add: example_eval)
  from unrecovered_exception_renders_error_page
         [of ?ok _ ?req'' ?env' "[]" "[137, 80]" "[137, 80]" "[137, 80]" "\<lparr>parts = None\<rparr>"] h'''
  have "fst (generate_tattoo_outcome ?ok ?env' [] ?req'')
          = Response (render ?req'' (b64encode [137, 80])
             (process_parts ?env' (case parts \<lparr>parts = None\<rparr> of None \<Rightarrow> [] | Some ps \<Rightarrow> ps)
                (initial_state [])))"
    by blast
  then have four: "fst (generate_tattoo_outcome ?ok ?env' [] ?req'') = Response (JSONResponse [] None)"
    by (simp only: r'')
  show ?thesis
    using one two three four by (simp only: str.simps)
qed

text \<open>
  C3 as stated fails for an exception that the handler recovers from: the read of the
  reference upload raises, and the answer is the page with a result and no error.
\<close>

theorem swallowed_exception_counterexample:
  "reference (example_request None (Some (Inl (PyException ''closed file''))))
     = Some (Inl (PyException ''closed file''))
   \<and> fst (generate_tattoo (example_env (Inr \<lparr>parts = None\<rparr>)) []
        (example_request None (Some (Inl (PyException ''closed file'')))))
     = TemplateResponse
         (Some \<lparr>result_uploaded_image_base64 = ''iVA='', result_generated_image_base64 = None,
                result_style = ''fine line'', result_theme = ''koi'', result_color_mode = [],
                result_size = ''forearm''\<rparr>)
         None
   \<and> fst (generate_tattoo (example_env (Inr \<lparr>parts = None\<rparr>)) []
        (example_request None (Some (Inl (PyException ''closed file'')))))
     \<noteq> TemplateResponse None (Some (str (PyException ''closed file'')))
   \<and> fst (generate_tattoo_outcome (\<lambda>r. None) (example_env (Inr \<lparr>parts = None\<rparr>)) []
        (example_request None (Some (Inl (PyException ''closed file'')))))
     \<noteq> Response (TemplateResponse None (Some (str (PyException ''closed file''))))"
  by (simp add: generate_tattoo_outcome_def generate_tattoo_def try_block_def render_def
      process_parts_def initial_state_def example_eval b64_char_def)

end
